theory Spec2Isabelle
  imports Main "HOL-Library.Sublist"
begin

section \<open>The graph-interaction controller of the bean dependency viewer\<close>

text \<open>
  A shallow embedding of the client script: the \<open>state\<close> object, the filter and reload
  coordinator (\<open>loadRoots\<close>, \<open>reloadDataAfterFilterChange\<close>, \<open>loadGraph\<close>,
  \<open>clearGraphView\<close>), the search navigator (\<open>handleSearchInput\<close>, \<open>applySearchTerm\<close>,
  \<open>stepSearch\<close>, \<open>resetView\<close>) and the detail panel (\<open>showDetails\<close>,
  \<open>renderRelationList\<close>, \<open>highlightNode\<close>).

  Every function takes the state and returns the updated state. An awaited provider
  response is an argument of the function that consumes it. The positions that the force
  simulation computes and the styling are outside the model; of the page, the model keeps
  what the script writes into it as data (status line, placeholder, counters, detail
  panel, the nodes drawn in the SVG element).
\<close>

subsection \<open>JavaScript values\<close>

text \<open>A string is truthy when it is not empty; \<open>null\<close> and \<open>undefined\<close> are \<open>None\<close>.\<close>

definition truthy :: "string option \<Rightarrow> bool" where
  "truthy v = (case v of None \<Rightarrow> False | Some s \<Rightarrow> s \<noteq> [])"

text \<open>\<open>root || null\<close>\<close>

definition or_null :: "string option \<Rightarrow> string option" where
  "or_null v = (if truthy v then v else None)"

text \<open>
  \<open>String.prototype.toLowerCase\<close> and \<open>trim\<close>, on ASCII: a \<open>char\<close> is a byte, letters
  outside \<open>A\<close>..\<open>Z\<close> are left as they are and white space is the six ASCII white-space
  characters.
\<close>

definition lower_char :: "char \<Rightarrow> char" where
  "lower_char c =
     (let n = (of_char c :: nat) in if 65 \<le> n \<and> n \<le> 90 then char_of (n + 32) else c)"

definition toLowerCase :: "string \<Rightarrow> string" where
  "toLowerCase s = map lower_char s"

definition is_space :: "char \<Rightarrow> bool" where
  "is_space c = (let n = (of_char c :: nat) in n = 32 \<or> (9 \<le> n \<and> n \<le> 13))"

definition trim :: "string \<Rightarrow> string" where
  "trim s = rev (dropWhile is_space (rev (dropWhile is_space s)))"

text \<open>\<open>hay.includes(needle)\<close>: the needle occurs as a contiguous run of the haystack.\<close>

fun str_includes :: "string \<Rightarrow> string \<Rightarrow> bool" where
  "str_includes [] needle = (needle = [])"
| "str_includes (c # cs) needle = (prefix needle (c # cs) \<or> str_includes cs needle)"

text \<open>\<open>xs || []\<close> for an array that may be absent: an array is truthy, also when empty.\<close>

definition or_empty :: "'a list option \<Rightarrow> 'a list" where
  "or_empty v = (case v of None \<Rightarrow> [] | Some xs \<Rightarrow> xs)"

text \<open>
  A function that may throw part-way: \<open>Returns\<close> with the state it leaves, or
  \<open>Throws\<close> with the state as it was written when the exception left the function.
\<close>

datatype 'a outcome = returned: Returns (after: 'a) | Throws (after: 'a)

text \<open>\<open>xs.join(',')\<close>\<close>

fun join_comma :: "string list \<Rightarrow> string" where
  "join_comma [] = []"
| "join_comma [x] = x"
| "join_comma (x # y # ys) = x @ '','' @ join_comma (y # ys)"

text \<open>
  The remainder operator \<open>%\<close> takes the sign of the dividend. The divisor is a list
  length here, never zero where the script divides.
\<close>

definition js_rem :: "int \<Rightarrow> int \<Rightarrow> int" where
  "js_rem a b = sgn a * (\<bar>a\<bar> mod \<bar>b\<bar>)"

text \<open>\<open>xs[i]\<close>: \<open>undefined\<close> outside the array.\<close>

definition js_index :: "'a list \<Rightarrow> int \<Rightarrow> 'a option" where
  "js_index xs i = (if 0 \<le> i \<and> i < int (length xs) then Some (xs ! nat i) else None)"

text \<open>
  \<open>URLSearchParams\<close> as the list of its pairs; \<open>set\<close> overwrites the first pair of the
  key and drops the others, or appends. The percent-encoding of \<open>toString\<close> is the
  platform's and is not modelled: a request is kept as its path and its parameters.
\<close>

type_synonym params = "(string \<times> string) list"

fun params_set :: "string \<Rightarrow> string \<Rightarrow> params \<Rightarrow> params" where
  "params_set k v [] = [(k, v)]"
| "params_set k v ((k', v') # ps) =
     (if k' = k then (k, v) # filter (\<lambda>p. fst p \<noteq> k) ps else (k', v') # params_set k v ps)"

definition params_get :: "params \<Rightarrow> string \<Rightarrow> string option" where
  "params_get ps k = map_of ps k"

record request =
  req_path :: string
  req_params :: params

subsection \<open>Data model\<close>

record node =
  node_id :: string
  label :: string
  dependencies :: "string list"
  dependents :: "string list"
  isRoot :: bool
  hasDependencies :: bool
  missing :: bool

record chain_summary =
  cs_root :: "string option"
  nodeCount :: nat
  leafCount :: nat
  isUnused :: bool
  externalReferencerCount :: nat
  externallyReferencedNodes :: nat

record unused_chain =
  uc_root :: string
  uc_nodeCount :: nat
  uc_leafCount :: nat

text \<open>A package entry is read as \<open>pkg.package || pkg.name || pkg.id\<close>.\<close>

record package_info =
  pkg_package :: "string option"
  pkg_name :: "string option"
  pkg_id :: "string option"
  beanCount :: "nat option"

text \<open>
  The JSON of \<open>/graph-data\<close> and of \<open>/roots\<close>; a field of type \<open>option\<close> may be absent.
  The script does not validate a payload: the \<open>nodes\<close> and \<open>edges\<close> arrays of a snapshot
  may be missing, and an edge may name an id that no node of the payload has. A node that
  is there has its fields.
\<close>

record graph_data =
  gd_nodes :: "node list option"
  gd_edges :: "(string \<times> string) list option"
  gd_roots :: "string list option"
  gd_chainSummary :: "chain_summary option"
  gd_isUnusedChain :: bool
  gd_thirdPartyPackages :: "package_info list option"

record roots_data =
  rd_roots :: "string list option"
  rd_unusedChains :: "unused_chain list option"
  rd_thirdPartyPackages :: "package_info list option"

text \<open>
  What an awaited \<open>fetch\<close> followed by \<open>response.json()\<close> yields: the fetch rejects, the
  status is not ok, the body is not JSON, or the payload arrives. The first three throw
  inside the \<open>try\<close> block.
\<close>

datatype 'a response = FetchRejected | BadStatus nat | BadJson | Payload 'a

fun is_payload :: "'a response \<Rightarrow> bool" where
  "is_payload (Payload d) = True"
| "is_payload r = False"

subsection \<open>What the script writes into the page\<close>

datatype level = Info | Success | Warn | Err

text \<open>The sentence appended to the "loaded" status message.\<close>

datatype load_note =
    NoNote
  | NoteChainUnused
  | NoteExternalRefs nat nat
  | NoteUnusedChains nat

text \<open>
  The status texts, one constructor for each literal of the script, with the values the
  template strings interpolate. The four \<open>Cleared\<close> messages are the
  \<open>messageWhenCleared\<close> texts of the three filter handlers.
\<close>

datatype message =
    MsgNone
  | MsgSelectRootFirst
  | MsgLoadingRoots
  | MsgChooseRootAndLoad
  | MsgNoRootsFound
  | MsgRootsFailed
  | MsgLoadingGraph "string option"
  | MsgLoaded "string option" nat load_note
  | MsgGraphFailed
  | MsgLoadDataFirst
  | MsgTypeKeyword
  | MsgMatchFound int nat "string option"
  | MsgNoMatch
  | MsgEnterKeywordFirst
  | MsgViewingMatch int nat "string option"
  | MsgNotInView
  | MsgViewReset
  | ClearedSpringFiltered
  | ClearedSpringIncluded
  | ClearedPackageFiltered
  | ClearedPackageIncluded

datatype placeholder_text = PhDefault | PhNothingUnderFilter | PhNoNodes

text \<open>
  An entry of a relation list: a button for an id of \<open>nodeById\<close>, otherwise plain text
  with the remark that the node is not in the current view.
\<close>

datatype relation_entry = Link string | NotInView string

datatype details_panel =
    PanelEmpty
  | PanelNode node "relation_entry list" "relation_entry list"

text \<open>The zoom transition last requested on the SVG element.\<close>

datatype transition = CenterOn string | ToIdentity

subsection \<open>The state object\<close>

text \<open>
  The fields of \<open>state\<close>, then what the script keeps in the page. \<open>svg\<close>, \<open>zoom\<close> and
  \<open>simulation\<close> are D3 handles: the model keeps whether they are set. \<open>nodeSelection\<close>
  is the D3 selection of the node groups: the model keeps the data bound to it, in
  document order. \<open>linkSelection\<close> and \<open>labelSelection\<close> are written and never read,
  and are left out. \<open>pkgWidgets\<close> says whether the page has the package container and
  the package select, which \<open>renderThirdPartyPackageOptions\<close> asks for. \<open>fetched\<close> is
  the list of requests passed to \<open>fetch\<close>, oldest first. \<open>svgNodes\<close> is the data of the
  node groups that are in the SVG element: \<open>buildGraph\<close> and \<open>clearGraphView\<close> remove the
  children of the element, and the join of \<open>buildGraph\<close> appends the new groups. After a
  \<open>buildGraph\<close> that threw, \<open>nodeSelection\<close> still is the selection of the groups that
  were removed.
\<close>

record state =
  roots :: "string list"
  currentRoot :: "string option"
  graphData :: "graph_data option"
  svg :: bool
  zoom :: bool
  simulation :: bool
  nodeSelection :: "node list option"
  nodeById :: "string \<rightharpoonup> node"
  highlightedNode :: "string option"
  unusedChains :: "unused_chain list"
  chainSummary :: "chain_summary option"
  excludeSpring :: bool
  excludeThirdParty :: bool
  availableThirdPartyPackages :: "package_info list"
  selectedThirdPartyPackages :: "string list"
  searchTerm :: string
  searchMatches :: "string list"
  searchIndex :: int
  status :: "message \<times> level"
  placeholder :: "placeholder_text option"
  statNodes :: nat
  statEdges :: nat
  statRoots :: nat
  statUnused :: nat
  details :: details_panel
  lastTransition :: "transition option"
  pkgWidgets :: bool
  fetched :: "request list"
  svgNodes :: "node list"

text \<open>
  The state literal at the top of the script. The page starts with its default
  placeholder, no status, counters at zero, an empty detail panel and both package
  widgets.
\<close>

definition initial_state :: state where
  "initial_state =
     \<lparr> roots = [], currentRoot = None, graphData = None, svg = False, zoom = False,
       simulation = False, nodeSelection = None, nodeById = Map.empty,
       highlightedNode = None, unusedChains = [], chainSummary = None,
       excludeSpring = False, excludeThirdParty = False,
       availableThirdPartyPackages = [], selectedThirdPartyPackages = [],
       searchTerm = [], searchMatches = [], searchIndex = - 1,
       status = (MsgNone, Info), placeholder = Some PhDefault,
       statNodes = 0, statEdges = 0, statRoots = 0, statUnused = 0,
       details = PanelEmpty, lastTransition = None, pkgWidgets = True, fetched = [],
       svgNodes = [] \<rparr>"

definition setStatus :: "message \<Rightarrow> level \<Rightarrow> state \<Rightarrow> state" where
  "setStatus m l s = s\<lparr>status := (m, l)\<rparr>"

subsection \<open>Query construction\<close>

text \<open>
  The filter parameters that \<open>buildGraphDataUrl\<close> and \<open>loadRoots\<close> both set. Both paths
  start with a slash, so \<open>buildApiUrl\<close> does not throw on them; it prefixes the API base
  of the page, which the model leaves out of the request.
\<close>

definition filter_params :: "state \<Rightarrow> params \<Rightarrow> params" where
  "filter_params s ps =
     (let ps1 = (if excludeSpring s then params_set ''excludeSpring'' ''true'' ps else ps)
      in if excludeThirdParty s
         then (let ps2 = params_set ''excludeThirdParty'' ''true'' ps1
               in if selectedThirdPartyPackages s \<noteq> []
                  then params_set ''thirdPartyPackages''
                         (join_comma (selectedThirdPartyPackages s)) ps2
                  else ps2)
         else ps1)"

definition buildGraphDataUrl :: "state \<Rightarrow> string option \<Rightarrow> request" where
  "buildGraphDataUrl s root =
     \<lparr> req_path = ''/graph-data'',
       req_params =
         filter_params s (params_set ''root'' (if truthy root then the root else ''all'') []) \<rparr>"

definition rootsUrl :: "state \<Rightarrow> request" where
  "rootsUrl s = \<lparr> req_path = ''/roots'', req_params = filter_params s [] \<rparr>"

subsection \<open>Third-party packages\<close>

definition pkg_value :: "package_info \<Rightarrow> string option" where
  "pkg_value p =
     (if truthy (pkg_package p) then pkg_package p
      else if truthy (pkg_name p) then pkg_name p
      else pkg_id p)"

text \<open>\<open>packages.map((pkg) => pkg.package || pkg.name || pkg.id).filter(Boolean)\<close>\<close>

definition package_values :: "package_info list \<Rightarrow> string list" where
  "package_values ps = map the (filter truthy (map pkg_value ps))"

definition getAllThirdPartyPackageIds :: "state \<Rightarrow> string list" where
  "getAllThirdPartyPackageIds s = package_values (availableThirdPartyPackages s)"

text \<open>
  Of \<open>renderThirdPartyPackageOptions\<close> the model keeps the one write to the state: a
  non-empty selection is cut down to the available packages. Without the two widgets the
  function returns at once.
\<close>

definition renderThirdPartyPackageOptions :: "state \<Rightarrow> state" where
  "renderThirdPartyPackageOptions s =
     (if \<not> pkgWidgets s then s
      else if selectedThirdPartyPackages s \<noteq> []
      then s\<lparr>selectedThirdPartyPackages :=
               filter (\<lambda>v. v \<in> set (package_values (availableThirdPartyPackages s)))
                 (selectedThirdPartyPackages s)\<rparr>
      else s)"

subsection \<open>Highlight and detail panel\<close>

definition highlightNode :: "string option \<Rightarrow> bool \<Rightarrow> state \<Rightarrow> state" where
  "highlightNode nodeId center s =
     (case nodeSelection s of
        None \<Rightarrow> s
      | Some ns \<Rightarrow>
          (let s1 = s\<lparr>highlightedNode := nodeId\<rparr>
           in if center \<and> truthy nodeId \<and> zoom s1 \<and> svg s1
              then (if filter (\<lambda>d. node_id d = the nodeId) ns \<noteq> []
                    then s1\<lparr>lastTransition := Some (CenterOn (the nodeId))\<rparr>
                    else s1)
              else s1))"

definition renderRelationList :: "state \<Rightarrow> string list \<Rightarrow> relation_entry list" where
  "renderRelationList s items =
     map (\<lambda>item. if nodeById s item \<noteq> None then Link item else NotInView item) items"

definition showDetails :: "node option \<Rightarrow> state \<Rightarrow> state" where
  "showDetails n s =
     (case n of
        None \<Rightarrow> s\<lparr>details := PanelEmpty\<rparr>
      | Some d \<Rightarrow>
          s\<lparr>details := PanelNode d (renderRelationList s (dependencies d))
                          (renderRelationList s (dependents d))\<rparr>)"

text \<open>The click listener that \<open>renderRelationList\<close> attaches to a relation button.\<close>

definition relationClick :: "string \<Rightarrow> state \<Rightarrow> state" where
  "relationClick target s =
     (if nodeById s target \<noteq> None
      then showDetails (nodeById s target) (highlightNode (Some target) True s)
      else setStatus MsgNotInView Warn s)"

text \<open>The click listener of a node group in \<open>buildGraph\<close>.\<close>

definition nodeClick :: "node \<Rightarrow> state \<Rightarrow> state" where
  "nodeClick d s = showDetails (Some d) (highlightNode (Some (node_id d)) False s)"

subsection \<open>Rendering a snapshot\<close>

definition clearGraphView :: "placeholder_text option \<Rightarrow> state \<Rightarrow> state" where
  "clearGraphView msg s =
     (let s1 = s\<lparr>simulation := False, svgNodes := [], svg := True, zoom := False,
                  placeholder := Some (case msg of None \<Rightarrow> PhDefault | Some m \<Rightarrow> m),
                  nodeSelection := None, nodeById := Map.empty, highlightedNode := None,
                  searchMatches := [], searchIndex := - 1\<rparr>
      in showDetails None (highlightNode None False s1))"

text \<open>\<open>new Map(data.nodes.map((n) => [n.id, n]))\<close>: a later node of the same id wins.\<close>

definition node_map :: "node list \<Rightarrow> (string \<rightharpoonup> node)" where
  "node_map ns = map_of (rev (map (\<lambda>n. (node_id n, n)) ns))"

text \<open>
  An edge with an end that is the id of no node. The link force of D3
  (\<open>d3.forceLink(data.edges).id((d) => d.id)\<close>) resolves the ends of each edge to nodes when
  it is added to the simulation, and throws on such an edge.
\<close>

definition dangling :: "node list \<Rightarrow> (string \<times> string) list \<Rightarrow> bool" where
  "dangling ns es =
     list_ex (\<lambda>e. fst e \<notin> set (map node_id ns) \<or> snd e \<notin> set (map node_id ns)) es"

text \<open>
  \<open>buildGraph\<close> empties the SVG element and reads \<open>data.nodes.length\<close>, which throws
  without a \<open>nodes\<close> array. With no node it shows the placeholder and returns. Otherwise
  it hides the placeholder, stops the old simulation, sets \<open>state.zoom\<close> and joins the
  edges to lines, which throws without an \<open>edges\<close> array; it joins the nodes and builds
  the simulation, where the link force throws on a dangling edge; only then does it assign
  \<open>state.simulation\<close>, \<open>state.svg\<close>, the selections and \<open>state.nodeById\<close>.
\<close>

definition buildGraph :: "graph_data \<Rightarrow> state \<Rightarrow> state outcome" where
  "buildGraph d s =
     (let s0 = s\<lparr>svgNodes := []\<rparr>
      in case gd_nodes d of
           None \<Rightarrow> Throws s0
         | Some ns \<Rightarrow>
             if ns = []
             then Returns
                    (showDetails None
                       (s0\<lparr>placeholder := Some PhNoNodes, nodeSelection := None,
                           nodeById := Map.empty\<rparr>))
             else (let s1 = s0\<lparr>placeholder := None, zoom := True\<rparr>
                   in case gd_edges d of
                        None \<Rightarrow> Throws s1
                      | Some es \<Rightarrow>
                          (let s2 = s1\<lparr>svgNodes := ns\<rparr>
                           in if dangling ns es then Throws s2
                              else Returns
                                     (showDetails None
                                        (highlightNode None False
                                           (s2\<lparr>simulation := True, svg := True,
                                               nodeSelection := Some ns,
                                               nodeById := node_map ns,
                                               highlightedNode := None\<rparr>))))))"

text \<open>\<open>updateStats\<close> writes the node counter, then reads \<open>data.edges.length\<close>.\<close>

definition updateStats :: "graph_data \<Rightarrow> state \<Rightarrow> state outcome" where
  "updateStats d s =
     (case gd_nodes d of
        None \<Rightarrow> Throws s
      | Some ns \<Rightarrow>
          (let s1 = s\<lparr>statNodes := length ns\<rparr>
           in case gd_edges d of
                None \<Rightarrow> Throws s1
              | Some es \<Rightarrow>
                  Returns
                    (s1\<lparr>statEdges := length es,
                        statRoots := length (or_empty (gd_roots d)),
                        statUnused := length (unusedChains s1)\<rparr>)))"

definition resetStatsDisplay :: "state \<Rightarrow> state" where
  "resetStatsDisplay s =
     s\<lparr>statNodes := 0, statEdges := 0, statRoots := length (roots s),
       statUnused := length (unusedChains s)\<rparr>"

subsection \<open>Search navigator\<close>

definition node_matches :: "string \<Rightarrow> node \<Rightarrow> bool" where
  "node_matches term d = (term \<noteq> [] \<and> str_includes (toLowerCase (node_id d)) term)"

definition applySearchTerm :: "bool \<Rightarrow> bool \<Rightarrow> state \<Rightarrow> state" where
  "applySearchTerm resetIndex centerOnMatch s =
     (case nodeSelection s of
        None \<Rightarrow> s\<lparr>searchMatches := [], searchIndex := - 1\<rparr>
      | Some ns \<Rightarrow>
          (let term = toLowerCase (searchTerm s);
               hasTerm = (term \<noteq> []);
               matches = map node_id (filter (node_matches term) ns);
               n = int (length matches);
               i1 = (if resetIndex then (if matches \<noteq> [] then 0 else - 1)
                     else if searchIndex s \<ge> n then (if matches \<noteq> [] then n - 1 else - 1)
                     else searchIndex s);
               s1 = s\<lparr>searchMatches := matches, searchIndex := i1\<rparr>
           in if hasTerm \<and> matches \<noteq> []
              then (let i2 = (if i1 < 0 then 0 else i1);
                        nodeId = js_index matches i2;
                        s2 = highlightNode nodeId centerOnMatch (s1\<lparr>searchIndex := i2\<rparr>);
                        s3 = (case (case nodeId of None \<Rightarrow> None | Some k \<Rightarrow> nodeById s2 k) of
                                None \<Rightarrow> s2
                              | Some d \<Rightarrow> showDetails (Some d) s2)
                    in setStatus (MsgMatchFound (i2 + 1) (length matches) nodeId) Success s3)
              else if hasTerm
              then setStatus MsgNoMatch Warn (highlightNode None False s1)
              else setStatus MsgTypeKeyword Info (highlightNode None False s1)))"

text \<open>The argument is the value of the search input when the event fires.\<close>

definition handleSearchInput :: "string \<Rightarrow> state \<Rightarrow> state" where
  "handleSearchInput v s =
     (let s1 = s\<lparr>searchTerm := trim v\<rparr>
      in if nodeSelection s1 = None
         then (let s2 = s1\<lparr>searchMatches := [], searchIndex := - 1\<rparr>
               in if searchTerm s2 \<noteq> [] then setStatus MsgLoadDataFirst Warn s2
                  else setStatus MsgTypeKeyword Info s2)
         else applySearchTerm True True s1)"

definition stepSearch :: "int \<Rightarrow> state \<Rightarrow> state" where
  "stepSearch offset s =
     (if nodeSelection s = None \<or> searchMatches s = []
      then (if searchTerm s \<noteq> [] then setStatus MsgNoMatch Warn s
            else setStatus MsgEnterKeywordFirst Info s)
      else (let total = int (length (searchMatches s));
                i0 = (if searchIndex s < 0 then 0 else searchIndex s);
                i1 = js_rem (i0 + offset + total) total;
                s1 = s\<lparr>searchIndex := i1\<rparr>;
                nodeId = js_index (searchMatches s1) i1;
                s2 = highlightNode nodeId True s1;
                s3 = (case (case nodeId of None \<Rightarrow> None | Some k \<Rightarrow> nodeById s2 k) of
                        None \<Rightarrow> s2
                      | Some d \<Rightarrow> showDetails (Some d) s2)
            in setStatus (MsgViewingMatch (i1 + 1) (length (searchMatches s)) nodeId) Success s3))"

definition resetView :: "state \<Rightarrow> state" where
  "resetView s =
     (let s1 = s\<lparr>searchTerm := [], searchMatches := [], searchIndex := - 1\<rparr>;
          s2 = setStatus MsgViewReset Info (highlightNode None False s1)
      in if svg s2 \<and> zoom s2 then s2\<lparr>lastTransition := Some ToIdentity\<rparr> else s2)"

subsection \<open>Loading the root list\<close>

text \<open>
  An \<open>async\<close> function runs up to its first \<open>await\<close> when it is called, and goes on
  when the awaited response has arrived; other listeners may run in between. The model has
  a function for each part, the second with the response as an argument, and the whole
  function as the two with nothing in between.

  \<open>loadRoots_begin\<close> is \<open>loadRoots\<close> up to the fetch, \<open>loadRoots_resume\<close> the rest, with
  the returned flag and the state as result. The root select of the page, the unused-chain
  list and the chain summary panel are redrawn from the state and are not part of the
  model; the option \<open>preserveSelection\<close> only puts the value of the root select back, and
  has no argument here. A failure is whatever reaches the \<open>catch\<close> block.
\<close>

definition loadRoots_begin :: "state \<Rightarrow> state" where
  "loadRoots_begin s =
     (let s1 = setStatus MsgLoadingRoots Info s
      in s1\<lparr>fetched := fetched s1 @ [rootsUrl s1]\<rparr>)"

definition loadRoots_resume :: "roots_data response \<Rightarrow> state \<Rightarrow> bool \<times> state" where
  "loadRoots_resume resp s =
     (case resp of
        Payload d \<Rightarrow>
          (let s3 = s\<lparr>roots := or_empty (rd_roots d),
                       unusedChains := or_empty (rd_unusedChains d),
                       availableThirdPartyPackages := or_empty (rd_thirdPartyPackages d)\<rparr>;
               s4 = renderThirdPartyPackageOptions s3;
               s5 = s4\<lparr>statUnused := length (unusedChains s4),
                       statRoots := length (roots s4)\<rparr>
           in (True, if roots s5 \<noteq> [] then setStatus MsgChooseRootAndLoad Info s5
                     else setStatus MsgNoRootsFound Warn s5))
      | _ \<Rightarrow>
          (let s3 = setStatus MsgRootsFailed Err s;
               s4 = s3\<lparr>roots := [], unusedChains := [], availableThirdPartyPackages := []\<rparr>
           in (False, resetStatsDisplay (renderThirdPartyPackageOptions s4))))"

definition loadRoots :: "roots_data response \<Rightarrow> state \<Rightarrow> bool \<times> state" where
  "loadRoots resp s = loadRoots_resume resp (loadRoots_begin s)"

subsection \<open>Loading a snapshot\<close>

text \<open>
  \<open>loadGraph_begin\<close> is \<open>loadGraph\<close> up to the fetch, \<open>loadGraph_resume\<close> the rest, with
  the \<open>root\<close> of the call and the response.
\<close>

definition loadGraph_begin :: "string option \<Rightarrow> state \<Rightarrow> state" where
  "loadGraph_begin root s =
     (let s1 = setStatus (MsgLoadingGraph (or_null root)) Info s;
          s2 = s1\<lparr>searchMatches := [], searchIndex := - 1\<rparr>
      in s2\<lparr>fetched := fetched s2 @ [buildGraphDataUrl s2 root]\<rparr>)"

definition load_note :: "string option \<Rightarrow> graph_data \<Rightarrow> state \<Rightarrow> load_note" where
  "load_note root d s =
     (if gd_isUnusedChain d then NoteChainUnused
      else if truthy root \<and> gd_chainSummary d \<noteq> None
      then (let c = the (gd_chainSummary d)
            in if externalReferencerCount c \<noteq> 0
               then NoteExternalRefs (externallyReferencedNodes c) (externalReferencerCount c)
               else NoNote)
      else if \<not> truthy root \<and> unusedChains s \<noteq> [] then NoteUnusedChains (length (unusedChains s))
      else NoNote)"

text \<open>
  The rest of the \<open>try\<close> block once \<open>buildGraph\<close> and \<open>updateStats\<close> have returned; the
  number in the status message is \<open>data.nodes.length\<close>.
\<close>

definition graph_loaded :: "string option \<Rightarrow> graph_data \<Rightarrow> nat \<Rightarrow> state \<Rightarrow> state" where
  "graph_loaded root d n s =
     (let s1 = setStatus (MsgLoaded (or_null root) n (load_note root d s)) Success s
      in if searchTerm s1 \<noteq> [] then applySearchTerm True False s1 else s1)"

text \<open>
  The \<open>catch\<close> block is reached from a failed fetch, and from an exception of
  \<open>buildGraph\<close> or \<open>updateStats\<close>, after \<open>state.graphData\<close>, \<open>state.currentRoot\<close> and
  \<open>state.chainSummary\<close> have been assigned.
\<close>

definition loadGraph_resume :: "string option \<Rightarrow> graph_data response \<Rightarrow> state \<Rightarrow> state" where
  "loadGraph_resume root resp s =
     (case resp of
        Payload d \<Rightarrow>
          (let s1 = s\<lparr>graphData := Some d, currentRoot := or_null root,
                       chainSummary := gd_chainSummary d\<rparr>;
               s2 = (case gd_thirdPartyPackages d of
                       None \<Rightarrow> s1
                     | Some ps \<Rightarrow>
                         renderThirdPartyPackageOptions
                           (s1\<lparr>availableThirdPartyPackages := ps\<rparr>))
           in case buildGraph d s2 of
                Throws s3 \<Rightarrow> setStatus MsgGraphFailed Err s3
              | Returns s3 \<Rightarrow>
                  (case updateStats d s3 of
                     Throws s4 \<Rightarrow> setStatus MsgGraphFailed Err s4
                   | Returns s4 \<Rightarrow>
                       (case gd_nodes d of
                          None \<Rightarrow> setStatus MsgGraphFailed Err s4
                        | Some ns \<Rightarrow> graph_loaded root d (length ns) s4)))
      | _ \<Rightarrow> setStatus MsgGraphFailed Err s)"

text \<open>
  The payloads on which \<open>buildGraph\<close> and \<open>updateStats\<close> return: both arrays are there,
  and there is no node or every end of an edge is the id of a node. On the others the load
  ends in the \<open>catch\<close> block.
\<close>

definition renders :: "graph_data \<Rightarrow> bool" where
  "renders d =
     (case gd_nodes d of
        None \<Rightarrow> False
      | Some ns \<Rightarrow>
          (case gd_edges d of None \<Rightarrow> False | Some es \<Rightarrow> ns = [] \<or> \<not> dangling ns es))"

text \<open>A load fails when its response reaches the \<open>catch\<close> block.\<close>

definition load_fails :: "graph_data response \<Rightarrow> bool" where
  "load_fails resp = (case resp of Payload d \<Rightarrow> \<not> renders d | _ \<Rightarrow> True)"

definition loadGraph :: "string option \<Rightarrow> graph_data response \<Rightarrow> state \<Rightarrow> state" where
  "loadGraph root resp s = loadGraph_resume root resp (loadGraph_begin root s)"

subsection \<open>Filter and reload coordinator\<close>

text \<open>
  The last branch of \<open>reloadDataAfterFilterChange\<close>, which clears the view.
  \<open>messageWhenCleared\<close> is \<open>None\<close> when the caller gives none.
\<close>

definition reload_clear :: "message option \<Rightarrow> level \<Rightarrow> state \<Rightarrow> state" where
  "reload_clear messageWhenCleared statusLevel s1 =
     (let s2 = s1\<lparr>currentRoot := None, graphData := None\<rparr>;
          s3 = clearGraphView (Some PhNothingUnderFilter) s2;
          s4 = resetStatsDisplay (s3\<lparr>chainSummary := None\<rparr>)
      in case messageWhenCleared of
           None \<Rightarrow> s4
         | Some m \<Rightarrow> setStatus m statusLevel s4)"

text \<open>
  \<open>reloadDataAfterFilterChange\<close> with the two responses it may await, and no other
  listener running while it waits.
\<close>

definition reloadDataAfterFilterChange ::
  "message option \<Rightarrow> level \<Rightarrow> roots_data response \<Rightarrow> graph_data response \<Rightarrow> state \<Rightarrow> state"
where
  "reloadDataAfterFilterChange messageWhenCleared statusLevel rresp gresp s =
     (let previousRoot = currentRoot s;
          hadFullGraph = (\<not> truthy previousRoot \<and> graphData s \<noteq> None);
          (loaded, s1) = loadRoots rresp s
      in if \<not> loaded then s1
         else if truthy previousRoot \<and> the previousRoot \<in> set (roots s1)
         then loadGraph previousRoot gresp s1
         else if \<not> truthy previousRoot \<and> hadFullGraph
         then loadGraph None gresp s1
         else reload_clear messageWhenCleared statusLevel s1)"

text \<open>
  The same function in the parts that run without a break: \<open>reload_begin\<close> reads
  \<open>previousRoot\<close> and \<open>hadFullGraph\<close> and runs up to the fetch of \<open>loadRoots\<close>;
  \<open>reload_resume\<close>, with the two values read and the response, runs from there to the
  fetch of \<open>loadGraph\<close> or to the end. The rest is \<open>loadGraph_resume\<close>.
\<close>

definition reload_begin :: "state \<Rightarrow> (string option \<times> bool) \<times> state" where
  "reload_begin s =
     (let previousRoot = currentRoot s;
          hadFullGraph = (\<not> truthy previousRoot \<and> graphData s \<noteq> None)
      in ((previousRoot, hadFullGraph), loadRoots_begin s))"

definition reload_resume ::
  "string option \<times> bool \<Rightarrow> message option \<Rightarrow> level \<Rightarrow> roots_data response \<Rightarrow> state \<Rightarrow> state"
where
  "reload_resume read messageWhenCleared statusLevel rresp s =
     (let previousRoot = fst read;
          hadFullGraph = snd read;
          (loaded, s1) = loadRoots_resume rresp s
      in if \<not> loaded then s1
         else if truthy previousRoot \<and> the previousRoot \<in> set (roots s1)
         then loadGraph_begin previousRoot s1
         else if \<not> truthy previousRoot \<and> hadFullGraph
         then loadGraph_begin None s1
         else reload_clear messageWhenCleared statusLevel s1)"

text \<open>
  The three filter controls of \<open>setupUI\<close>. A mutation is first written to the state
  (\<open>mutate\<close>, the listener up to its call of the coordinator); a change of the package
  selection while \<open>excludeThirdParty\<close> is off stops there.
\<close>

datatype filter_mutation =
    ExcludeSpring bool
  | SelectPackages "string list"
  | ExcludeThirdParty bool

fun mutate :: "filter_mutation \<Rightarrow> state \<Rightarrow> state" where
  "mutate (ExcludeSpring checked) s = s\<lparr>excludeSpring := checked\<rparr>"
| "mutate (SelectPackages selected) s = s\<lparr>selectedThirdPartyPackages := selected\<rparr>"
| "mutate (ExcludeThirdParty checked) s =
     (let s1 = s\<lparr>excludeThirdParty := checked\<rparr>;
          s2 = (if excludeThirdParty s1 \<and> selectedThirdPartyPackages s1 = []
                then s1\<lparr>selectedThirdPartyPackages := getAllThirdPartyPackageIds s1\<rparr>
                else s1)
      in renderThirdPartyPackageOptions s2)"

fun reconciles :: "filter_mutation \<Rightarrow> state \<Rightarrow> bool" where
  "reconciles (SelectPackages selected) s = excludeThirdParty s"
| "reconciles m s = True"

fun cleared_notice :: "filter_mutation \<Rightarrow> message \<times> level" where
  "cleared_notice (ExcludeSpring checked) =
     (if checked then (ClearedSpringFiltered, Warn) else (ClearedSpringIncluded, Info))"
| "cleared_notice (SelectPackages selected) = (ClearedPackageFiltered, Warn)"
| "cleared_notice (ExcludeThirdParty checked) =
     (if checked then (ClearedPackageFiltered, Warn) else (ClearedPackageIncluded, Info))"

definition filterChange ::
  "filter_mutation \<Rightarrow> roots_data response \<Rightarrow> graph_data response \<Rightarrow> state \<Rightarrow> state"
where
  "filterChange m rresp gresp s =
     (let s1 = mutate m s
      in if \<not> reconciles m s1 then s1
         else reloadDataAfterFilterChange (Some (fst (cleared_notice m))) (snd (cleared_notice m))
                rresp gresp s1)"

subsection \<open>Events\<close>

text \<open>
  What can happen to the page, one event for each run without a break: the listeners of
  \<open>setupUI\<close>, \<open>buildGraph\<close>, \<open>renderUnusedChains\<close> and \<open>renderRelationList\<close> up to an
  \<open>await\<close>, the first \<open>loadRoots\<close> up to its fetch, and the arrivals of the responses.
  \<open>LoadRootClick\<close> carries the value of the root select; the arrival of the root list
  for a filter change carries what the coordinator read when it began.
\<close>

datatype event =
    RootsRequested
  | RootsArrived "roots_data response"
  | LoadRootClick string
  | LoadAllClick
  | UnusedChainClick string
  | GraphArrived "string option" "graph_data response"
  | SearchInput string
  | SearchPrev
  | SearchNext
  | ResetViewClick
  | NodeClick node
  | RelationClick string
  | FilterChanged filter_mutation
  | FilterRootsArrived "string option \<times> bool" filter_mutation "roots_data response"

fun fire :: "event \<Rightarrow> state \<Rightarrow> state" where
  "fire RootsRequested s = loadRoots_begin s"
| "fire (RootsArrived resp) s = snd (loadRoots_resume resp s)"
| "fire (LoadRootClick v) s =
     (if v = [] then setStatus MsgSelectRootFirst Warn s else loadGraph_begin (Some v) s)"
| "fire LoadAllClick s = loadGraph_begin None s"
| "fire (UnusedChainClick r) s = loadGraph_begin (Some r) s"
| "fire (GraphArrived root resp) s = loadGraph_resume root resp s"
| "fire (SearchInput v) s = handleSearchInput v s"
| "fire SearchPrev s = stepSearch (- 1) s"
| "fire SearchNext s = stepSearch 1 s"
| "fire ResetViewClick s = resetView s"
| "fire (NodeClick d) s = nodeClick d s"
| "fire (RelationClick target) s = relationClick target s"
| "fire (FilterChanged m) s =
     (let s1 = mutate m s in if \<not> reconciles m s1 then s1 else snd (reload_begin s1))"
| "fire (FilterRootsArrived read m rresp) s =
     reload_resume read (Some (fst (cleared_notice m))) (snd (cleared_notice m)) rresp s"

fun run :: "event list \<Rightarrow> state \<Rightarrow> state" where
  "run [] s = s"
| "run (e # es) s = run es (fire e s)"

inductive reachable :: "state \<Rightarrow> bool" where
  start: "reachable initial_state"
| step: "reachable s \<Longrightarrow> reachable (fire e s)"

subsection \<open>Invariants\<close>

text \<open>
  \<open>searchIndex\<close> is \<open>- 1\<close> for "none". The search invariant: no match and no index, or
  an index into the matches.
\<close>

definition search_inv :: "state \<Rightarrow> bool" where
  "search_inv s =
     ((searchMatches s = [] \<and> searchIndex s = - 1) \<or>
      (searchMatches s \<noteq> [] \<and> 0 \<le> searchIndex s \<and>
       searchIndex s < int (length (searchMatches s))))"

text \<open>
  The rendered view: \<open>nodeById\<close> holds the nodes bound to \<open>nodeSelection\<close>, and a
  non-empty selection comes with the zoom behaviour and the SVG handle.
\<close>

definition view_inv :: "state \<Rightarrow> bool" where
  "view_inv s =
     (case nodeSelection s of
        None \<Rightarrow> nodeById s = Map.empty
      | Some ns \<Rightarrow> ns \<noteq> [] \<and> nodeById s = node_map ns \<and> zoom s \<and> svg s)"

subsection \<open>A page to run the script on\<close>

text \<open>
  Roots \<open>A\<close> and \<open>B\<close>; the snapshot of \<open>A\<close> has the nodes \<open>A\<close> and \<open>B\<close> and the edge from
  \<open>A\<close> to \<open>B\<close>, the snapshot of \<open>B\<close> the node \<open>B\<close> alone. \<open>A\<close> also names a dependency
  \<open>C\<close> that no snapshot holds.
\<close>

definition node_A :: node where
  "node_A = \<lparr> node_id = ''A'', label = ''A'', dependencies = [''B'', ''C''], dependents = [],
               isRoot = True, hasDependencies = True, missing = False \<rparr>"

definition node_B :: node where
  "node_B = \<lparr> node_id = ''B'', label = ''B'', dependencies = [], dependents = [''A''],
               isRoot = True, hasDependencies = False, missing = False \<rparr>"

definition snapshot_A :: graph_data where
  "snapshot_A = \<lparr> gd_nodes = Some [node_A, node_B], gd_edges = Some [(''A'', ''B'')],
                   gd_roots = Some [''A''], gd_chainSummary = None, gd_isUnusedChain = False,
                   gd_thirdPartyPackages = None \<rparr>"

definition snapshot_B :: graph_data where
  "snapshot_B = \<lparr> gd_nodes = Some [node_B], gd_edges = Some [],
                   gd_roots = Some [''B''], gd_chainSummary = None, gd_isUnusedChain = False,
                   gd_thirdPartyPackages = None \<rparr>"

definition packages_12 :: "package_info list" where
  "packages_12 =
     [\<lparr> pkg_package = Some ''pkg1'', pkg_name = None, pkg_id = None, beanCount = Some 3 \<rparr>,
      \<lparr> pkg_package = None, pkg_name = Some ''pkg2'', pkg_id = None, beanCount = None \<rparr>]"

definition roots_AB :: roots_data where
  "roots_AB = \<lparr> rd_roots = Some [''A'', ''B''], rd_unusedChains = None,
                 rd_thirdPartyPackages = Some packages_12 \<rparr>"


text \<open>The page after the root list has arrived, and after the snapshot of \<open>A\<close> has.\<close>

definition page_roots :: state where
  "page_roots = run [RootsRequested, RootsArrived (Payload roots_AB)] initial_state"

definition page_A :: state where
  "page_A = run [LoadRootClick ''A'', GraphArrived (Some ''A'') (Payload snapshot_A)] page_roots"


text \<open>
  All nodes: \<open>A\<close>, \<open>B\<close>, \<open>alpha\<close> and \<open>beta\<close>. \<open>page_search\<close> is the page after the
  search for \<open>a\<close> over them and one step forward.
\<close>

definition node_alpha :: node where
  "node_alpha = \<lparr> node_id = ''alpha'', label = ''alpha'', dependencies = [], dependents = [],
                   isRoot = False, hasDependencies = False, missing = False \<rparr>"

definition node_beta :: node where
  "node_beta = \<lparr> node_id = ''beta'', label = ''beta'', dependencies = [], dependents = [],
                  isRoot = False, hasDependencies = False, missing = True \<rparr>"

definition snapshot_all :: graph_data where
  "snapshot_all = \<lparr> gd_nodes = Some [node_A, node_B, node_alpha, node_beta],
                     gd_edges = Some [(''A'', ''B'')], gd_roots = Some [''A'', ''B''],
                     gd_chainSummary = None, gd_isUnusedChain = False,
                     gd_thirdPartyPackages = None \<rparr>"

definition page_search :: state where
  "page_search =
     run [LoadAllClick, GraphArrived None (Payload snapshot_all), SearchInput ''a'', SearchNext]
       page_roots"

text \<open>
  Two payloads that do not render: the body \<open>{}\<close>, and the node \<open>B\<close> with an edge to an
  id \<open>Z\<close> that no node has.
\<close>

definition payload_empty :: graph_data where
  "payload_empty = \<lparr> gd_nodes = None, gd_edges = None, gd_roots = None,
                      gd_chainSummary = None, gd_isUnusedChain = False,
                      gd_thirdPartyPackages = None \<rparr>"

definition payload_dangling :: graph_data where
  "payload_dangling = \<lparr> gd_nodes = Some [node_B], gd_edges = Some [(''B'', ''Z'')],
                         gd_roots = Some [''B''], gd_chainSummary = None,
                         gd_isUnusedChain = False, gd_thirdPartyPackages = None \<rparr>"

section \<open>Properties\<close>

subsection \<open>Strings and frames\<close>




text \<open>What each building block leaves alone.\<close>

lemma setStatus_frame [simp]:
  "roots (setStatus m l s) = roots s"
  "currentRoot (setStatus m l s) = currentRoot s"
  "graphData (setStatus m l s) = graphData s"
  "svg (setStatus m l s) = svg s"
  "zoom (setStatus m l s) = zoom s"
  "simulation (setStatus m l s) = simulation s"
  "nodeSelection (setStatus m l s) = nodeSelection s"
  "nodeById (setStatus m l s) = nodeById s"
  "highlightedNode (setStatus m l s) = highlightedNode s"
  "unusedChains (setStatus m l s) = unusedChains s"
  "chainSummary (setStatus m l s) = chainSummary s"
  "excludeSpring (setStatus m l s) = excludeSpring s"
  "excludeThirdParty (setStatus m l s) = excludeThirdParty s"
  "availableThirdPartyPackages (setStatus m l s) = availableThirdPartyPackages s"
  "selectedThirdPartyPackages (setStatus m l s) = selectedThirdPartyPackages s"
  "searchTerm (setStatus m l s) = searchTerm s"
  "searchMatches (setStatus m l s) = searchMatches s"
  "searchIndex (setStatus m l s) = searchIndex s"
  "placeholder (setStatus m l s) = placeholder s"
  "statNodes (setStatus m l s) = statNodes s"
  "statEdges (setStatus m l s) = statEdges s"
  "statRoots (setStatus m l s) = statRoots s"
  "statUnused (setStatus m l s) = statUnused s"
  "details (setStatus m l s) = details s"
  "lastTransition (setStatus m l s) = lastTransition s"
  "pkgWidgets (setStatus m l s) = pkgWidgets s"
  "fetched (setStatus m l s) = fetched s"
  "svgNodes (setStatus m l s) = svgNodes s"
  by (simp_all add: setStatus_def)

lemma highlightNode_frame [simp]:
  "roots (highlightNode k c s) = roots s"
  "currentRoot (highlightNode k c s) = currentRoot s"
  "graphData (highlightNode k c s) = graphData s"
  "svg (highlightNode k c s) = svg s"
  "zoom (highlightNode k c s) = zoom s"
  "simulation (highlightNode k c s) = simulation s"
  "nodeSelection (highlightNode k c s) = nodeSelection s"
  "nodeById (highlightNode k c s) = nodeById s"
  "unusedChains (highlightNode k c s) = unusedChains s"
  "chainSummary (highlightNode k c s) = chainSummary s"
  "excludeSpring (highlightNode k c s) = excludeSpring s"
  "excludeThirdParty (highlightNode k c s) = excludeThirdParty s"
  "availableThirdPartyPackages (highlightNode k c s) = availableThirdPartyPackages s"
  "selectedThirdPartyPackages (highlightNode k c s) = selectedThirdPartyPackages s"
  "searchTerm (highlightNode k c s) = searchTerm s"
  "searchMatches (highlightNode k c s) = searchMatches s"
  "searchIndex (highlightNode k c s) = searchIndex s"
  "status (highlightNode k c s) = status s"
  "placeholder (highlightNode k c s) = placeholder s"
  "statNodes (highlightNode k c s) = statNodes s"
  "statEdges (highlightNode k c s) = statEdges s"
  "statRoots (highlightNode k c s) = statRoots s"
  "statUnused (highlightNode k c s) = statUnused s"
  "details (highlightNode k c s) = details s"
  "pkgWidgets (highlightNode k c s) = pkgWidgets s"
  "fetched (highlightNode k c s) = fetched s"
  "svgNodes (highlightNode k c s) = svgNodes s"
  by (simp_all add: highlightNode_def Let_def split: option.split)

lemma highlightNode_highlighted [simp]:
  "highlightedNode (highlightNode k c s) = (if nodeSelection s = None then highlightedNode s else k)"
  by (simp add: highlightNode_def Let_def split: option.split)

lemma highlightNode_no_center [simp]:
  "lastTransition (highlightNode None c s) = lastTransition s"
  "lastTransition (highlightNode k False s) = lastTransition s"
  by (simp_all add: highlightNode_def Let_def truthy_def split: option.split)

lemma showDetails_frame [simp]:
  "roots (showDetails n s) = roots s"
  "currentRoot (showDetails n s) = currentRoot s"
  "graphData (showDetails n s) = graphData s"
  "svg (showDetails n s) = svg s"
  "zoom (showDetails n s) = zoom s"
  "simulation (showDetails n s) = simulation s"
  "nodeSelection (showDetails n s) = nodeSelection s"
  "nodeById (showDetails n s) = nodeById s"
  "highlightedNode (showDetails n s) = highlightedNode s"
  "unusedChains (showDetails n s) = unusedChains s"
  "chainSummary (showDetails n s) = chainSummary s"
  "excludeSpring (showDetails n s) = excludeSpring s"
  "excludeThirdParty (showDetails n s) = excludeThirdParty s"
  "availableThirdPartyPackages (showDetails n s) = availableThirdPartyPackages s"
  "selectedThirdPartyPackages (showDetails n s) = selectedThirdPartyPackages s"
  "searchTerm (showDetails n s) = searchTerm s"
  "searchMatches (showDetails n s) = searchMatches s"
  "searchIndex (showDetails n s) = searchIndex s"
  "status (showDetails n s) = status s"
  "placeholder (showDetails n s) = placeholder s"
  "statNodes (showDetails n s) = statNodes s"
  "statEdges (showDetails n s) = statEdges s"
  "statRoots (showDetails n s) = statRoots s"
  "statUnused (showDetails n s) = statUnused s"
  "lastTransition (showDetails n s) = lastTransition s"
  "pkgWidgets (showDetails n s) = pkgWidgets s"
  "fetched (showDetails n s) = fetched s"
  "svgNodes (showDetails n s) = svgNodes s"
  by (simp_all add: showDetails_def split: option.split)

lemma updateStats_frame [simp]:
  "roots (after (updateStats d s)) = roots s"
  "currentRoot (after (updateStats d s)) = currentRoot s"
  "graphData (after (updateStats d s)) = graphData s"
  "svg (after (updateStats d s)) = svg s"
  "zoom (after (updateStats d s)) = zoom s"
  "simulation (after (updateStats d s)) = simulation s"
  "nodeSelection (after (updateStats d s)) = nodeSelection s"
  "nodeById (after (updateStats d s)) = nodeById s"
  "highlightedNode (after (updateStats d s)) = highlightedNode s"
  "unusedChains (after (updateStats d s)) = unusedChains s"
  "chainSummary (after (updateStats d s)) = chainSummary s"
  "excludeSpring (after (updateStats d s)) = excludeSpring s"
  "excludeThirdParty (after (updateStats d s)) = excludeThirdParty s"
  "availableThirdPartyPackages (after (updateStats d s)) = availableThirdPartyPackages s"
  "selectedThirdPartyPackages (after (updateStats d s)) = selectedThirdPartyPackages s"
  "searchTerm (after (updateStats d s)) = searchTerm s"
  "searchMatches (after (updateStats d s)) = searchMatches s"
  "searchIndex (after (updateStats d s)) = searchIndex s"
  "status (after (updateStats d s)) = status s"
  "placeholder (after (updateStats d s)) = placeholder s"
  "details (after (updateStats d s)) = details s"
  "lastTransition (after (updateStats d s)) = lastTransition s"
  "pkgWidgets (after (updateStats d s)) = pkgWidgets s"
  "fetched (after (updateStats d s)) = fetched s"
  "svgNodes (after (updateStats d s)) = svgNodes s"
  by (simp_all add: updateStats_def Let_def split: option.split)

lemma resetStatsDisplay_frame [simp]:
  "roots (resetStatsDisplay s) = roots s"
  "currentRoot (resetStatsDisplay s) = currentRoot s"
  "graphData (resetStatsDisplay s) = graphData s"
  "svg (resetStatsDisplay s) = svg s"
  "zoom (resetStatsDisplay s) = zoom s"
  "simulation (resetStatsDisplay s) = simulation s"
  "nodeSelection (resetStatsDisplay s) = nodeSelection s"
  "nodeById (resetStatsDisplay s) = nodeById s"
  "highlightedNode (resetStatsDisplay s) = highlightedNode s"
  "unusedChains (resetStatsDisplay s) = unusedChains s"
  "chainSummary (resetStatsDisplay s) = chainSummary s"
  "excludeSpring (resetStatsDisplay s) = excludeSpring s"
  "excludeThirdParty (resetStatsDisplay s) = excludeThirdParty s"
  "availableThirdPartyPackages (resetStatsDisplay s) = availableThirdPartyPackages s"
  "selectedThirdPartyPackages (resetStatsDisplay s) = selectedThirdPartyPackages s"
  "searchTerm (resetStatsDisplay s) = searchTerm s"
  "searchMatches (resetStatsDisplay s) = searchMatches s"
  "searchIndex (resetStatsDisplay s) = searchIndex s"
  "status (resetStatsDisplay s) = status s"
  "placeholder (resetStatsDisplay s) = placeholder s"
  "details (resetStatsDisplay s) = details s"
  "lastTransition (resetStatsDisplay s) = lastTransition s"
  "pkgWidgets (resetStatsDisplay s) = pkgWidgets s"
  "fetched (resetStatsDisplay s) = fetched s"
  "svgNodes (resetStatsDisplay s) = svgNodes s"
  by (simp_all add: resetStatsDisplay_def)

lemma renderThirdPartyPackageOptions_frame [simp]:
  "roots (renderThirdPartyPackageOptions s) = roots s"
  "currentRoot (renderThirdPartyPackageOptions s) = currentRoot s"
  "graphData (renderThirdPartyPackageOptions s) = graphData s"
  "svg (renderThirdPartyPackageOptions s) = svg s"
  "zoom (renderThirdPartyPackageOptions s) = zoom s"
  "simulation (renderThirdPartyPackageOptions s) = simulation s"
  "nodeSelection (renderThirdPartyPackageOptions s) = nodeSelection s"
  "nodeById (renderThirdPartyPackageOptions s) = nodeById s"
  "highlightedNode (renderThirdPartyPackageOptions s) = highlightedNode s"
  "unusedChains (renderThirdPartyPackageOptions s) = unusedChains s"
  "chainSummary (renderThirdPartyPackageOptions s) = chainSummary s"
  "excludeSpring (renderThirdPartyPackageOptions s) = excludeSpring s"
  "excludeThirdParty (renderThirdPartyPackageOptions s) = excludeThirdParty s"
  "availableThirdPartyPackages (renderThirdPartyPackageOptions s) = availableThirdPartyPackages s"
  "searchTerm (renderThirdPartyPackageOptions s) = searchTerm s"
  "searchMatches (renderThirdPartyPackageOptions s) = searchMatches s"
  "searchIndex (renderThirdPartyPackageOptions s) = searchIndex s"
  "status (renderThirdPartyPackageOptions s) = status s"
  "placeholder (renderThirdPartyPackageOptions s) = placeholder s"
  "statNodes (renderThirdPartyPackageOptions s) = statNodes s"
  "statEdges (renderThirdPartyPackageOptions s) = statEdges s"
  "statRoots (renderThirdPartyPackageOptions s) = statRoots s"
  "statUnused (renderThirdPartyPackageOptions s) = statUnused s"
  "details (renderThirdPartyPackageOptions s) = details s"
  "lastTransition (renderThirdPartyPackageOptions s) = lastTransition s"
  "pkgWidgets (renderThirdPartyPackageOptions s) = pkgWidgets s"
  "fetched (renderThirdPartyPackageOptions s) = fetched s"
  "svgNodes (renderThirdPartyPackageOptions s) = svgNodes s"
  by (simp_all add: renderThirdPartyPackageOptions_def)

lemma clearGraphView_frame [simp]:
  "roots (clearGraphView p s) = roots s"
  "currentRoot (clearGraphView p s) = currentRoot s"
  "graphData (clearGraphView p s) = graphData s"
  "unusedChains (clearGraphView p s) = unusedChains s"
  "chainSummary (clearGraphView p s) = chainSummary s"
  "excludeSpring (clearGraphView p s) = excludeSpring s"
  "excludeThirdParty (clearGraphView p s) = excludeThirdParty s"
  "availableThirdPartyPackages (clearGraphView p s) = availableThirdPartyPackages s"
  "selectedThirdPartyPackages (clearGraphView p s) = selectedThirdPartyPackages s"
  "searchTerm (clearGraphView p s) = searchTerm s"
  "status (clearGraphView p s) = status s"
  "statNodes (clearGraphView p s) = statNodes s"
  "statEdges (clearGraphView p s) = statEdges s"
  "statRoots (clearGraphView p s) = statRoots s"
  "statUnused (clearGraphView p s) = statUnused s"
  "lastTransition (clearGraphView p s) = lastTransition s"
  "pkgWidgets (clearGraphView p s) = pkgWidgets s"
  "fetched (clearGraphView p s) = fetched s"
  by (simp_all add: clearGraphView_def Let_def)

lemma buildGraph_frame [simp]:
  "roots (after (buildGraph d s)) = roots s"
  "currentRoot (after (buildGraph d s)) = currentRoot s"
  "graphData (after (buildGraph d s)) = graphData s"
  "unusedChains (after (buildGraph d s)) = unusedChains s"
  "chainSummary (after (buildGraph d s)) = chainSummary s"
  "excludeSpring (after (buildGraph d s)) = excludeSpring s"
  "excludeThirdParty (after (buildGraph d s)) = excludeThirdParty s"
  "availableThirdPartyPackages (after (buildGraph d s)) = availableThirdPartyPackages s"
  "selectedThirdPartyPackages (after (buildGraph d s)) = selectedThirdPartyPackages s"
  "searchTerm (after (buildGraph d s)) = searchTerm s"
  "searchMatches (after (buildGraph d s)) = searchMatches s"
  "searchIndex (after (buildGraph d s)) = searchIndex s"
  "status (after (buildGraph d s)) = status s"
  "statNodes (after (buildGraph d s)) = statNodes s"
  "statEdges (after (buildGraph d s)) = statEdges s"
  "statRoots (after (buildGraph d s)) = statRoots s"
  "statUnused (after (buildGraph d s)) = statUnused s"
  "pkgWidgets (after (buildGraph d s)) = pkgWidgets s"
  "fetched (after (buildGraph d s)) = fetched s"
  by (simp_all add: buildGraph_def Let_def split: option.split)

lemma applySearchTerm_frame [simp]:
  "roots (applySearchTerm r c s) = roots s"
  "currentRoot (applySearchTerm r c s) = currentRoot s"
  "graphData (applySearchTerm r c s) = graphData s"
  "svg (applySearchTerm r c s) = svg s"
  "zoom (applySearchTerm r c s) = zoom s"
  "simulation (applySearchTerm r c s) = simulation s"
  "nodeSelection (applySearchTerm r c s) = nodeSelection s"
  "nodeById (applySearchTerm r c s) = nodeById s"
  "unusedChains (applySearchTerm r c s) = unusedChains s"
  "chainSummary (applySearchTerm r c s) = chainSummary s"
  "excludeSpring (applySearchTerm r c s) = excludeSpring s"
  "excludeThirdParty (applySearchTerm r c s) = excludeThirdParty s"
  "availableThirdPartyPackages (applySearchTerm r c s) = availableThirdPartyPackages s"
  "selectedThirdPartyPackages (applySearchTerm r c s) = selectedThirdPartyPackages s"
  "searchTerm (applySearchTerm r c s) = searchTerm s"
  "placeholder (applySearchTerm r c s) = placeholder s"
  "statNodes (applySearchTerm r c s) = statNodes s"
  "statEdges (applySearchTerm r c s) = statEdges s"
  "statRoots (applySearchTerm r c s) = statRoots s"
  "statUnused (applySearchTerm r c s) = statUnused s"
  "pkgWidgets (applySearchTerm r c s) = pkgWidgets s"
  "fetched (applySearchTerm r c s) = fetched s"
  "svgNodes (applySearchTerm r c s) = svgNodes s"
  by (simp_all add: applySearchTerm_def Let_def split: option.split)

lemma handleSearchInput_frame [simp]:
  "roots (handleSearchInput v s) = roots s"
  "currentRoot (handleSearchInput v s) = currentRoot s"
  "graphData (handleSearchInput v s) = graphData s"
  "svg (handleSearchInput v s) = svg s"
  "zoom (handleSearchInput v s) = zoom s"
  "simulation (handleSearchInput v s) = simulation s"
  "nodeSelection (handleSearchInput v s) = nodeSelection s"
  "nodeById (handleSearchInput v s) = nodeById s"
  "unusedChains (handleSearchInput v s) = unusedChains s"
  "chainSummary (handleSearchInput v s) = chainSummary s"
  "excludeSpring (handleSearchInput v s) = excludeSpring s"
  "excludeThirdParty (handleSearchInput v s) = excludeThirdParty s"
  "availableThirdPartyPackages (handleSearchInput v s) = availableThirdPartyPackages s"
  "selectedThirdPartyPackages (handleSearchInput v s) = selectedThirdPartyPackages s"
  "placeholder (handleSearchInput v s) = placeholder s"
  "statNodes (handleSearchInput v s) = statNodes s"
  "statEdges (handleSearchInput v s) = statEdges s"
  "statRoots (handleSearchInput v s) = statRoots s"
  "statUnused (handleSearchInput v s) = statUnused s"
  "pkgWidgets (handleSearchInput v s) = pkgWidgets s"
  "fetched (handleSearchInput v s) = fetched s"
  "svgNodes (handleSearchInput v s) = svgNodes s"
  by (simp_all add: handleSearchInput_def Let_def)

lemma stepSearch_frame [simp]:
  "roots (stepSearch k s) = roots s"
  "currentRoot (stepSearch k s) = currentRoot s"
  "graphData (stepSearch k s) = graphData s"
  "svg (stepSearch k s) = svg s"
  "zoom (stepSearch k s) = zoom s"
  "simulation (stepSearch k s) = simulation s"
  "nodeSelection (stepSearch k s) = nodeSelection s"
  "nodeById (stepSearch k s) = nodeById s"
  "unusedChains (stepSearch k s) = unusedChains s"
  "chainSummary (stepSearch k s) = chainSummary s"
  "excludeSpring (stepSearch k s) = excludeSpring s"
  "excludeThirdParty (stepSearch k s) = excludeThirdParty s"
  "availableThirdPartyPackages (stepSearch k s) = availableThirdPartyPackages s"
  "selectedThirdPartyPackages (stepSearch k s) = selectedThirdPartyPackages s"
  "searchTerm (stepSearch k s) = searchTerm s"
  "searchMatches (stepSearch k s) = searchMatches s"
  "placeholder (stepSearch k s) = placeholder s"
  "statNodes (stepSearch k s) = statNodes s"
  "statEdges (stepSearch k s) = statEdges s"
  "statRoots (stepSearch k s) = statRoots s"
  "statUnused (stepSearch k s) = statUnused s"
  "pkgWidgets (stepSearch k s) = pkgWidgets s"
  "fetched (stepSearch k s) = fetched s"
  "svgNodes (stepSearch k s) = svgNodes s"
  by (simp_all add: stepSearch_def Let_def split: option.split)

lemma resetView_frame [simp]:
  "roots (resetView s) = roots s"
  "currentRoot (resetView s) = currentRoot s"
  "graphData (resetView s) = graphData s"
  "svg (resetView s) = svg s"
  "zoom (resetView s) = zoom s"
  "simulation (resetView s) = simulation s"
  "nodeSelection (resetView s) = nodeSelection s"
  "nodeById (resetView s) = nodeById s"
  "unusedChains (resetView s) = unusedChains s"
  "chainSummary (resetView s) = chainSummary s"
  "excludeSpring (resetView s) = excludeSpring s"
  "excludeThirdParty (resetView s) = excludeThirdParty s"
  "availableThirdPartyPackages (resetView s) = availableThirdPartyPackages s"
  "selectedThirdPartyPackages (resetView s) = selectedThirdPartyPackages s"
  "placeholder (resetView s) = placeholder s"
  "statNodes (resetView s) = statNodes s"
  "statEdges (resetView s) = statEdges s"
  "statRoots (resetView s) = statRoots s"
  "statUnused (resetView s) = statUnused s"
  "details (resetView s) = details s"
  "pkgWidgets (resetView s) = pkgWidgets s"
  "fetched (resetView s) = fetched s"
  "svgNodes (resetView s) = svgNodes s"
  by (simp_all add: resetView_def Let_def)

lemma loadGraph_begin_frame [simp]:
  "roots (loadGraph_begin root s) = roots s"
  "currentRoot (loadGraph_begin root s) = currentRoot s"
  "graphData (loadGraph_begin root s) = graphData s"
  "svg (loadGraph_begin root s) = svg s"
  "zoom (loadGraph_begin root s) = zoom s"
  "simulation (loadGraph_begin root s) = simulation s"
  "nodeSelection (loadGraph_begin root s) = nodeSelection s"
  "nodeById (loadGraph_begin root s) = nodeById s"
  "highlightedNode (loadGraph_begin root s) = highlightedNode s"
  "unusedChains (loadGraph_begin root s) = unusedChains s"
  "chainSummary (loadGraph_begin root s) = chainSummary s"
  "excludeSpring (loadGraph_begin root s) = excludeSpring s"
  "excludeThirdParty (loadGraph_begin root s) = excludeThirdParty s"
  "availableThirdPartyPackages (loadGraph_begin root s) = availableThirdPartyPackages s"
  "selectedThirdPartyPackages (loadGraph_begin root s) = selectedThirdPartyPackages s"
  "searchTerm (loadGraph_begin root s) = searchTerm s"
  "placeholder (loadGraph_begin root s) = placeholder s"
  "statNodes (loadGraph_begin root s) = statNodes s"
  "statEdges (loadGraph_begin root s) = statEdges s"
  "statRoots (loadGraph_begin root s) = statRoots s"
  "statUnused (loadGraph_begin root s) = statUnused s"
  "details (loadGraph_begin root s) = details s"
  "lastTransition (loadGraph_begin root s) = lastTransition s"
  "pkgWidgets (loadGraph_begin root s) = pkgWidgets s"
  "svgNodes (loadGraph_begin root s) = svgNodes s"
  by (simp_all add: loadGraph_begin_def Let_def)

lemma loadRoots_begin_frame [simp]:
  "roots (loadRoots_begin s) = roots s"
  "currentRoot (loadRoots_begin s) = currentRoot s"
  "graphData (loadRoots_begin s) = graphData s"
  "svg (loadRoots_begin s) = svg s"
  "zoom (loadRoots_begin s) = zoom s"
  "simulation (loadRoots_begin s) = simulation s"
  "nodeSelection (loadRoots_begin s) = nodeSelection s"
  "nodeById (loadRoots_begin s) = nodeById s"
  "highlightedNode (loadRoots_begin s) = highlightedNode s"
  "unusedChains (loadRoots_begin s) = unusedChains s"
  "chainSummary (loadRoots_begin s) = chainSummary s"
  "excludeSpring (loadRoots_begin s) = excludeSpring s"
  "excludeThirdParty (loadRoots_begin s) = excludeThirdParty s"
  "availableThirdPartyPackages (loadRoots_begin s) = availableThirdPartyPackages s"
  "selectedThirdPartyPackages (loadRoots_begin s) = selectedThirdPartyPackages s"
  "searchTerm (loadRoots_begin s) = searchTerm s"
  "searchMatches (loadRoots_begin s) = searchMatches s"
  "searchIndex (loadRoots_begin s) = searchIndex s"
  "placeholder (loadRoots_begin s) = placeholder s"
  "statNodes (loadRoots_begin s) = statNodes s"
  "statEdges (loadRoots_begin s) = statEdges s"
  "statRoots (loadRoots_begin s) = statRoots s"
  "statUnused (loadRoots_begin s) = statUnused s"
  "details (loadRoots_begin s) = details s"
  "lastTransition (loadRoots_begin s) = lastTransition s"
  "pkgWidgets (loadRoots_begin s) = pkgWidgets s"
  "svgNodes (loadRoots_begin s) = svgNodes s"
  by (simp_all add: loadRoots_begin_def Let_def)

lemma loadRoots_resume_frame [simp]:
  "currentRoot (snd (loadRoots_resume resp s)) = currentRoot s"
  "graphData (snd (loadRoots_resume resp s)) = graphData s"
  "svg (snd (loadRoots_resume resp s)) = svg s"
  "zoom (snd (loadRoots_resume resp s)) = zoom s"
  "simulation (snd (loadRoots_resume resp s)) = simulation s"
  "nodeSelection (snd (loadRoots_resume resp s)) = nodeSelection s"
  "nodeById (snd (loadRoots_resume resp s)) = nodeById s"
  "highlightedNode (snd (loadRoots_resume resp s)) = highlightedNode s"
  "chainSummary (snd (loadRoots_resume resp s)) = chainSummary s"
  "excludeSpring (snd (loadRoots_resume resp s)) = excludeSpring s"
  "excludeThirdParty (snd (loadRoots_resume resp s)) = excludeThirdParty s"
  "searchTerm (snd (loadRoots_resume resp s)) = searchTerm s"
  "searchMatches (snd (loadRoots_resume resp s)) = searchMatches s"
  "searchIndex (snd (loadRoots_resume resp s)) = searchIndex s"
  "placeholder (snd (loadRoots_resume resp s)) = placeholder s"
  "details (snd (loadRoots_resume resp s)) = details s"
  "lastTransition (snd (loadRoots_resume resp s)) = lastTransition s"
  "pkgWidgets (snd (loadRoots_resume resp s)) = pkgWidgets s"
  "fetched (snd (loadRoots_resume resp s)) = fetched s"
  "svgNodes (snd (loadRoots_resume resp s)) = svgNodes s"
  by (cases resp; simp add: loadRoots_resume_def Let_def)+

lemma loadRoots_frame [simp]:
  "currentRoot (snd (loadRoots resp s)) = currentRoot s"
  "graphData (snd (loadRoots resp s)) = graphData s"
  "svg (snd (loadRoots resp s)) = svg s"
  "zoom (snd (loadRoots resp s)) = zoom s"
  "simulation (snd (loadRoots resp s)) = simulation s"
  "nodeSelection (snd (loadRoots resp s)) = nodeSelection s"
  "nodeById (snd (loadRoots resp s)) = nodeById s"
  "highlightedNode (snd (loadRoots resp s)) = highlightedNode s"
  "chainSummary (snd (loadRoots resp s)) = chainSummary s"
  "excludeSpring (snd (loadRoots resp s)) = excludeSpring s"
  "excludeThirdParty (snd (loadRoots resp s)) = excludeThirdParty s"
  "searchTerm (snd (loadRoots resp s)) = searchTerm s"
  "searchMatches (snd (loadRoots resp s)) = searchMatches s"
  "searchIndex (snd (loadRoots resp s)) = searchIndex s"
  "placeholder (snd (loadRoots resp s)) = placeholder s"
  "details (snd (loadRoots resp s)) = details s"
  "lastTransition (snd (loadRoots resp s)) = lastTransition s"
  "pkgWidgets (snd (loadRoots resp s)) = pkgWidgets s"
  "svgNodes (snd (loadRoots resp s)) = svgNodes s"
  by (simp_all add: loadRoots_def)

lemma reload_clear_frame [simp]:
  "roots (reload_clear msg lvl s) = roots s"
  "unusedChains (reload_clear msg lvl s) = unusedChains s"
  "excludeSpring (reload_clear msg lvl s) = excludeSpring s"
  "excludeThirdParty (reload_clear msg lvl s) = excludeThirdParty s"
  "availableThirdPartyPackages (reload_clear msg lvl s) = availableThirdPartyPackages s"
  "selectedThirdPartyPackages (reload_clear msg lvl s) = selectedThirdPartyPackages s"
  "searchTerm (reload_clear msg lvl s) = searchTerm s"
  "lastTransition (reload_clear msg lvl s) = lastTransition s"
  "pkgWidgets (reload_clear msg lvl s) = pkgWidgets s"
  "fetched (reload_clear msg lvl s) = fetched s"
  by (simp_all add: reload_clear_def Let_def split: option.split)

lemma mutate_frame [simp]:
  "roots (mutate m s) = roots s"
  "currentRoot (mutate m s) = currentRoot s"
  "graphData (mutate m s) = graphData s"
  "svg (mutate m s) = svg s"
  "zoom (mutate m s) = zoom s"
  "simulation (mutate m s) = simulation s"
  "nodeSelection (mutate m s) = nodeSelection s"
  "nodeById (mutate m s) = nodeById s"
  "highlightedNode (mutate m s) = highlightedNode s"
  "unusedChains (mutate m s) = unusedChains s"
  "chainSummary (mutate m s) = chainSummary s"
  "availableThirdPartyPackages (mutate m s) = availableThirdPartyPackages s"
  "searchTerm (mutate m s) = searchTerm s"
  "searchMatches (mutate m s) = searchMatches s"
  "searchIndex (mutate m s) = searchIndex s"
  "status (mutate m s) = status s"
  "placeholder (mutate m s) = placeholder s"
  "statNodes (mutate m s) = statNodes s"
  "statEdges (mutate m s) = statEdges s"
  "statRoots (mutate m s) = statRoots s"
  "statUnused (mutate m s) = statUnused s"
  "details (mutate m s) = details s"
  "lastTransition (mutate m s) = lastTransition s"
  "pkgWidgets (mutate m s) = pkgWidgets s"
  "fetched (mutate m s) = fetched s"
  "svgNodes (mutate m s) = svgNodes s"
  by (cases m; simp add: Let_def)+

lemma nodeClick_frame [simp]:
  "roots (nodeClick d s) = roots s"
  "currentRoot (nodeClick d s) = currentRoot s"
  "graphData (nodeClick d s) = graphData s"
  "svg (nodeClick d s) = svg s"
  "zoom (nodeClick d s) = zoom s"
  "simulation (nodeClick d s) = simulation s"
  "nodeSelection (nodeClick d s) = nodeSelection s"
  "nodeById (nodeClick d s) = nodeById s"
  "unusedChains (nodeClick d s) = unusedChains s"
  "chainSummary (nodeClick d s) = chainSummary s"
  "excludeSpring (nodeClick d s) = excludeSpring s"
  "excludeThirdParty (nodeClick d s) = excludeThirdParty s"
  "availableThirdPartyPackages (nodeClick d s) = availableThirdPartyPackages s"
  "selectedThirdPartyPackages (nodeClick d s) = selectedThirdPartyPackages s"
  "searchTerm (nodeClick d s) = searchTerm s"
  "searchMatches (nodeClick d s) = searchMatches s"
  "searchIndex (nodeClick d s) = searchIndex s"
  "status (nodeClick d s) = status s"
  "placeholder (nodeClick d s) = placeholder s"
  "statNodes (nodeClick d s) = statNodes s"
  "statEdges (nodeClick d s) = statEdges s"
  "statRoots (nodeClick d s) = statRoots s"
  "statUnused (nodeClick d s) = statUnused s"
  "lastTransition (nodeClick d s) = lastTransition s"
  "pkgWidgets (nodeClick d s) = pkgWidgets s"
  "fetched (nodeClick d s) = fetched s"
  "svgNodes (nodeClick d s) = svgNodes s"
  by (simp_all add: nodeClick_def)

lemma relationClick_frame [simp]:
  "roots (relationClick target s) = roots s"
  "currentRoot (relationClick target s) = currentRoot s"
  "graphData (relationClick target s) = graphData s"
  "svg (relationClick target s) = svg s"
  "zoom (relationClick target s) = zoom s"
  "simulation (relationClick target s) = simulation s"
  "nodeSelection (relationClick target s) = nodeSelection s"
  "nodeById (relationClick target s) = nodeById s"
  "unusedChains (relationClick target s) = unusedChains s"
  "chainSummary (relationClick target s) = chainSummary s"
  "excludeSpring (relationClick target s) = excludeSpring s"
  "excludeThirdParty (relationClick target s) = excludeThirdParty s"
  "availableThirdPartyPackages (relationClick target s) = availableThirdPartyPackages s"
  "selectedThirdPartyPackages (relationClick target s) = selectedThirdPartyPackages s"
  "searchTerm (relationClick target s) = searchTerm s"
  "searchMatches (relationClick target s) = searchMatches s"
  "searchIndex (relationClick target s) = searchIndex s"
  "placeholder (relationClick target s) = placeholder s"
  "statNodes (relationClick target s) = statNodes s"
  "statEdges (relationClick target s) = statEdges s"
  "statRoots (relationClick target s) = statRoots s"
  "statUnused (relationClick target s) = statUnused s"
  "pkgWidgets (relationClick target s) = pkgWidgets s"
  "fetched (relationClick target s) = fetched s"
  "svgNodes (relationClick target s) = svgNodes s"
  by (simp_all add: relationClick_def)

lemma graph_loaded_frame [simp]:
  "roots (graph_loaded root d n s) = roots s"
  "currentRoot (graph_loaded root d n s) = currentRoot s"
  "graphData (graph_loaded root d n s) = graphData s"
  "svg (graph_loaded root d n s) = svg s"
  "zoom (graph_loaded root d n s) = zoom s"
  "simulation (graph_loaded root d n s) = simulation s"
  "nodeSelection (graph_loaded root d n s) = nodeSelection s"
  "nodeById (graph_loaded root d n s) = nodeById s"
  "unusedChains (graph_loaded root d n s) = unusedChains s"
  "chainSummary (graph_loaded root d n s) = chainSummary s"
  "excludeSpring (graph_loaded root d n s) = excludeSpring s"
  "excludeThirdParty (graph_loaded root d n s) = excludeThirdParty s"
  "availableThirdPartyPackages (graph_loaded root d n s) = availableThirdPartyPackages s"
  "selectedThirdPartyPackages (graph_loaded root d n s) = selectedThirdPartyPackages s"
  "searchTerm (graph_loaded root d n s) = searchTerm s"
  "placeholder (graph_loaded root d n s) = placeholder s"
  "statNodes (graph_loaded root d n s) = statNodes s"
  "statEdges (graph_loaded root d n s) = statEdges s"
  "statRoots (graph_loaded root d n s) = statRoots s"
  "statUnused (graph_loaded root d n s) = statUnused s"
  "pkgWidgets (graph_loaded root d n s) = pkgWidgets s"
  "fetched (graph_loaded root d n s) = fetched s"
  "svgNodes (graph_loaded root d n s) = svgNodes s"
  by (simp_all add: graph_loaded_def Let_def)

text \<open>When \<open>buildGraph\<close> and \<open>updateStats\<close> return.\<close>

lemma returned_buildGraph:
  "returned (buildGraph d s) =
     (case gd_nodes d of
        None \<Rightarrow> False
      | Some ns \<Rightarrow> ns = [] \<or> (case gd_edges d of None \<Rightarrow> False | Some es \<Rightarrow> \<not> dangling ns es))"
  by (simp add: buildGraph_def Let_def split: option.split)

lemma returned_updateStats:
  "returned (updateStats d s) = (gd_nodes d \<noteq> None \<and> gd_edges d \<noteq> None)"
  by (simp add: updateStats_def Let_def split: option.split)

lemma renders_returned:
  "renders d = (returned (buildGraph d s) \<and> returned (updateStats d t))"
  by (auto simp add: renders_def returned_buildGraph returned_updateStats split: option.split)


lemma applySearchTerm_reset_index:
  "searchIndex (applySearchTerm True c s) =
     (if searchMatches (applySearchTerm True c s) \<noteq> [] then 0 else - 1)"
  by (simp add: applySearchTerm_def Let_def node_matches_def split: option.split)



subsection \<open>Setting the search term\<close>



subsection \<open>Stepping through the matches\<close>

lemma js_rem_nonneg: "0 \<le> a \<Longrightarrow> 0 < b \<Longrightarrow> js_rem a b = a mod b"
  by (cases "a = 0") (simp_all add: js_rem_def)

lemma stepSearch_idle:
  "nodeSelection s = None \<or> searchMatches s = [] \<Longrightarrow>
   searchIndex (stepSearch k s) = searchIndex s"
  by (auto simp add: stepSearch_def)

lemma stepSearch_index:
  assumes "nodeSelection s \<noteq> None" "searchMatches s \<noteq> []"
  shows "searchIndex (stepSearch k s) =
           js_rem ((if searchIndex s < 0 then 0 else searchIndex s) + k
                     + int (length (searchMatches s)))
                  (int (length (searchMatches s)))"
  using assms by (auto simp add: stepSearch_def Let_def split: option.split)

lemma stepSearch_mod:
  assumes "nodeSelection s \<noteq> None" "searchMatches s \<noteq> []"
    and "0 \<le> searchIndex s" and "- 1 \<le> k"
  shows "searchIndex (stepSearch k s) = (searchIndex s + k) mod int (length (searchMatches s))"
proof -
  let ?n = "int (length (searchMatches s))"
  have n: "0 < ?n" using assms(2) by simp
  have "searchIndex (stepSearch k s) = js_rem (searchIndex s + k + ?n) ?n"
    using assms by (simp add: stepSearch_index)
  also have "\<dots> = (searchIndex s + k + ?n) mod ?n"
    using assms n by (intro js_rem_nonneg) linarith+
  also have "\<dots> = (searchIndex s + k) mod ?n"
    by simp
  finally show ?thesis .
qed

lemma stepSearch_iterate:
  assumes "nodeSelection s \<noteq> None" "searchMatches s \<noteq> []"
    and "0 \<le> searchIndex s" and "k = 1 \<or> k = - 1"
  shows "searchMatches ((stepSearch k ^^ m) s) = searchMatches s \<and>
         nodeSelection ((stepSearch k ^^ m) s) = nodeSelection s \<and>
         0 \<le> searchIndex ((stepSearch k ^^ m) s) \<and>
         searchIndex ((stepSearch k ^^ m) s) mod int (length (searchMatches s)) =
           (searchIndex s + int m * k) mod int (length (searchMatches s))"
proof (induction m)
  case 0
  show ?case using assms by simp
next
  case (Suc m)
  let ?n = "int (length (searchMatches s))"
  let ?t = "(stepSearch k ^^ m) s"
  have n: "0 < ?n" using assms(2) by simp
  have k: "- 1 \<le> k" using assms(4) by auto
  have idx: "searchIndex (stepSearch k ?t) = (searchIndex ?t + k) mod ?n"
    using Suc.IH assms(1,2) k by (simp add: stepSearch_mod)
  have "(searchIndex ?t + k) mod ?n = (searchIndex ?t mod ?n + k) mod ?n"
    by (simp add: mod_add_left_eq)
  also have "\<dots> = ((searchIndex s + int m * k) mod ?n + k) mod ?n"
    using Suc.IH by simp
  also have "\<dots> = (searchIndex s + int m * k + k) mod ?n"
    by (simp only: mod_add_left_eq)
  also have "searchIndex s + int m * k + k = searchIndex s + int (Suc m) * k"
    by (simp add: algebra_simps)
  finally have step: "(searchIndex ?t + k) mod ?n = (searchIndex s + int (Suc m) * k) mod ?n" .
  show ?case
    using Suc.IH idx step n by simp
qed

lemma stepSearch_idle_iterate:
  "nodeSelection s = None \<or> searchMatches s = [] \<Longrightarrow>
   searchIndex ((stepSearch k ^^ m) s) = searchIndex s \<and>
   searchMatches ((stepSearch k ^^ m) s) = searchMatches s \<and>
   nodeSelection ((stepSearch k ^^ m) s) = nodeSelection s"
  by (induction m) (auto simp add: stepSearch_idle)

lemma stepSearch_cycle:
  assumes "search_inv s" and "k = 1 \<or> k = - 1"
  shows "searchIndex ((stepSearch k ^^ length (searchMatches s)) s) = searchIndex s"
proof (cases "nodeSelection s = None \<or> searchMatches s = []")
  case True
  then show ?thesis by (simp add: stepSearch_idle_iterate)
next
  case False
  let ?n = "int (length (searchMatches s))"
  let ?t = "(stepSearch k ^^ length (searchMatches s)) s"
  from False assms(1) have r: "0 \<le> searchIndex s" "searchIndex s < ?n"
    by (auto simp add: search_inv_def)
  from False have a: "nodeSelection s \<noteq> None" "searchMatches s \<noteq> []" by auto
  note it = stepSearch_iterate[OF a r(1) assms(2), of "length (searchMatches s)"]
  have last: "?t = stepSearch k ((stepSearch k ^^ (length (searchMatches s) - 1)) s)"
    using a(2) by (cases "length (searchMatches s)") simp_all
  note it' = stepSearch_iterate[OF a r(1) assms(2), of "length (searchMatches s) - 1"]
  have "searchIndex ?t < ?n"
  proof -
    have "- 1 \<le> k" using assms(2) by auto
    then have "searchIndex ?t = (searchIndex ((stepSearch k ^^ (length (searchMatches s) - 1)) s) + k) mod ?n"
      unfolding last using it' a by (simp add: stepSearch_mod)
    then show ?thesis using a(2) by simp
  qed
  moreover have "0 \<le> searchIndex ?t" using it by simp
  moreover have "searchIndex ?t mod ?n = searchIndex s mod ?n"
    using it by simp
  ultimately show ?thesis using r by simp
qed

text \<open>
  C7. In a state that satisfies the search invariant, as many steps forward as there
  are matches bring \<open>searchIndex\<close> back to where it was, and so do as many steps
  backward. Over a rendered snapshot with a match, one step moves the index by one modulo
  the number of matches, forward or backward.
\<close>

theorem step_cycle:
  assumes "search_inv s"
  shows "searchIndex ((stepSearch 1 ^^ length (searchMatches s)) s) = searchIndex s \<and>
         searchIndex ((stepSearch (- 1) ^^ length (searchMatches s)) s) = searchIndex s \<and>
         (nodeSelection s \<noteq> None \<and> searchMatches s \<noteq> [] \<longrightarrow>
            searchIndex (stepSearch 1 s) =
              (searchIndex s + 1) mod int (length (searchMatches s)) \<and>
            searchIndex (stepSearch (- 1) s) =
              (searchIndex s - 1) mod int (length (searchMatches s)))"
proof -
  have "nodeSelection s \<noteq> None \<and> searchMatches s \<noteq> [] \<longrightarrow> 0 \<le> searchIndex s"
    using assms by (auto simp add: search_inv_def)
  then have "nodeSelection s \<noteq> None \<and> searchMatches s \<noteq> [] \<longrightarrow>
      searchIndex (stepSearch 1 s) = (searchIndex s + 1) mod int (length (searchMatches s)) \<and>
      searchIndex (stepSearch (- 1) s) = (searchIndex s - 1) mod int (length (searchMatches s))"
    using stepSearch_mod[of s 1] stepSearch_mod[of s "- 1"] by simp
  with stepSearch_cycle[OF assms, of 1] stepSearch_cycle[OF assms, of "- 1"]
  show ?thesis by simp
qed

theorem step_cycle_witness:
  "search_inv page_search \<and>
   searchMatches page_search = [''A'', ''alpha'', ''beta''] \<and>
   searchIndex page_search = 1 \<and>
   searchIndex ((stepSearch 1 ^^ 3) page_search) = 1 \<and>
   searchIndex ((stepSearch (- 1) ^^ 3) page_search) = 1 \<and>
   searchIndex (stepSearch 1 page_search) = 2 \<and>
   searchIndex (stepSearch (- 1) page_search) = 0"
proof -
  have inv: "search_inv page_search"
    by code_simp
  have m: "searchMatches page_search = [''A'', ''alpha'', ''beta'']"
    by code_simp
  have i: "searchIndex page_search = 1"
    by code_simp
  have sel: "nodeSelection page_search \<noteq> None"
    by code_simp
  from step_cycle[OF inv] show ?thesis
    using inv sel by (simp add: m i numeral_3_eq_3)
qed

subsection \<open>The search invariant\<close>

lemma search_inv_empty:
  "searchMatches s = [] \<Longrightarrow> searchIndex s = - 1 \<Longrightarrow> search_inv s"
  by (simp add: search_inv_def)

lemma search_inv_same:
  "search_inv s \<Longrightarrow> searchMatches t = searchMatches s \<Longrightarrow> searchIndex t = searchIndex s \<Longrightarrow>
   search_inv t"
  by (simp add: search_inv_def)

lemma search_inv_applySearchTerm: "search_inv (applySearchTerm True c s)"
  using applySearchTerm_reset_index[of c s] by (auto simp add: search_inv_def)

lemma search_inv_handleSearchInput: "search_inv (handleSearchInput v s)"
  by (simp add: handleSearchInput_def Let_def search_inv_applySearchTerm search_inv_empty)

lemma search_inv_resetView: "search_inv (resetView s)"
  by (simp add: resetView_def Let_def search_inv_empty)

lemma search_inv_clearGraphView: "search_inv (clearGraphView p s)"
  by (simp add: clearGraphView_def Let_def search_inv_empty)

lemma search_inv_loadGraph_begin: "search_inv (loadGraph_begin root s)"
  by (simp add: loadGraph_begin_def Let_def search_inv_empty)

lemma loadGraph_resume_failed:
  "\<not> is_payload resp \<Longrightarrow> loadGraph_resume root resp s = setStatus MsgGraphFailed Err s"
  by (cases resp) (simp_all add: loadGraph_resume_def)

lemma search_inv_graph_loaded:
  "search_inv s \<Longrightarrow> search_inv (graph_loaded root d n s)"
  by (auto simp add: graph_loaded_def Let_def search_inv_applySearchTerm
      intro: search_inv_same[of s])

lemma search_inv_loadGraph_resume:
  assumes "search_inv s"
  shows "search_inv (loadGraph_resume root resp s)"
proof (cases resp)
  case (Payload d)
  have keep: "search_inv t"
    if "searchMatches t = searchMatches s" "searchIndex t = searchIndex s" for t
    using assms that by (rule search_inv_same)
  show ?thesis
    by (simp add: Payload loadGraph_resume_def Let_def outcome.case_eq_if
        search_inv_graph_loaded keep split: option.split)
next
  case FetchRejected
  then show ?thesis using assms by (simp add: loadGraph_resume_def search_inv_def)
next
  case (BadStatus n)
  then show ?thesis using assms by (simp add: loadGraph_resume_def search_inv_def)
next
  case BadJson
  then show ?thesis using assms by (simp add: loadGraph_resume_def search_inv_def)
qed

lemma search_inv_loadGraph: "search_inv (loadGraph root resp s)"
  by (simp add: loadGraph_def search_inv_loadGraph_resume search_inv_loadGraph_begin)

lemma loadRoots_resume_loaded: "fst (loadRoots_resume resp s) = is_payload resp"
  by (cases resp) (simp_all add: loadRoots_resume_def Let_def)

lemma loadRoots_loaded: "fst (loadRoots resp s) = is_payload resp"
  by (simp add: loadRoots_def loadRoots_resume_loaded)

lemma reload_unfold:
  "reloadDataAfterFilterChange msg lvl rresp gresp s =
     (let s1 = snd (loadRoots rresp s)
      in if \<not> is_payload rresp then s1
         else if truthy (currentRoot s) \<and> the (currentRoot s) \<in> set (roots s1)
         then loadGraph (currentRoot s) gresp s1
         else if \<not> truthy (currentRoot s) \<and> graphData s \<noteq> None
         then loadGraph None gresp s1
         else reload_clear msg lvl s1)"
  using loadRoots_loaded[of rresp s]
  by (cases "loadRoots rresp s") (simp add: reloadDataAfterFilterChange_def Let_def)

lemma reload_resume_unfold:
  "reload_resume read msg lvl rresp s =
     (let s1 = snd (loadRoots_resume rresp s)
      in if \<not> is_payload rresp then s1
         else if truthy (fst read) \<and> the (fst read) \<in> set (roots s1)
         then loadGraph_begin (fst read) s1
         else if \<not> truthy (fst read) \<and> snd read
         then loadGraph_begin None s1
         else reload_clear msg lvl s1)"
  using loadRoots_resume_loaded[of rresp s]
  by (cases "loadRoots_resume rresp s") (simp add: reload_resume_def Let_def)

text \<open>The whole coordinator is its parts, one after the other.\<close>

lemma reload_parts:
  "reloadDataAfterFilterChange msg lvl rresp gresp s =
     (let read = fst (reload_begin s);
          s1 = reload_resume read msg lvl rresp (snd (reload_begin s))
      in if is_payload rresp \<and> truthy (fst read) \<and>
            the (fst read) \<in> set (roots (snd (loadRoots rresp s)))
         then loadGraph_resume (fst read) gresp s1
         else if is_payload rresp \<and> \<not> truthy (fst read) \<and> snd read
         then loadGraph_resume None gresp s1
         else s1)"
  by (simp add: reload_unfold reload_resume_unfold reload_begin_def Let_def loadGraph_def
      loadRoots_def)

lemma search_inv_reload_clear: "search_inv (reload_clear msg lvl s)"
proof -
  have "search_inv (clearGraphView p t)" for p t
    by (rule search_inv_clearGraphView)
  then have c: "search_inv (resetStatsDisplay ((clearGraphView p t)\<lparr>chainSummary := None\<rparr>))" for p t
    by (rule search_inv_same) simp_all
  have d: "search_inv (setStatus m lvl t)" if "search_inv t" for m t
    using that by (rule search_inv_same) simp_all
  show ?thesis
    using c d by (simp add: reload_clear_def Let_def split: option.split)
qed

lemma search_inv_reload_resume:
  assumes "search_inv s"
  shows "search_inv (reload_resume read msg lvl rresp s)"
proof -
  have "search_inv (snd (loadRoots_resume rresp s))"
    using assms by (rule search_inv_same) simp_all
  then show ?thesis
    by (simp add: reload_resume_unfold Let_def search_inv_loadGraph_begin search_inv_reload_clear)
qed

lemma search_inv_stepSearch:
  assumes "search_inv s" and "- 1 \<le> k"
  shows "search_inv (stepSearch k s)"
proof (cases "nodeSelection s = None \<or> searchMatches s = []")
  case True
  with assms(1) show ?thesis
    by (rule_tac search_inv_same[of s]) (simp_all add: stepSearch_idle)
next
  case False
  with assms have "0 \<le> searchIndex s"
    by (auto simp add: search_inv_def)
  with False assms(2) show ?thesis
    by (simp add: search_inv_def stepSearch_mod)
qed

lemma search_inv_fire:
  assumes "search_inv s"
  shows "search_inv (fire e s)"
proof (cases e)
  case RootsRequested
  from assms show ?thesis unfolding RootsRequested by (rule search_inv_same) simp_all
next
  case (RootsArrived resp)
  from assms show ?thesis unfolding RootsArrived by (rule search_inv_same) simp_all
next
  case (FilterChanged m)
  from assms show ?thesis unfolding FilterChanged
    by (rule search_inv_same) (simp_all add: Let_def reload_begin_def)
next
  case (LoadRootClick v)
  have "search_inv (setStatus MsgSelectRootFirst Warn s)"
    using assms by (rule search_inv_same) simp_all
  then show ?thesis
    by (simp add: LoadRootClick search_inv_loadGraph_begin)
next
  case (NodeClick d)
  from assms show ?thesis unfolding NodeClick
    by (rule search_inv_same) (simp_all add: nodeClick_def)
next
  case (RelationClick t)
  from assms show ?thesis unfolding RelationClick
    by (rule search_inv_same) (simp_all add: relationClick_def)
qed (simp_all add: assms search_inv_loadGraph_begin search_inv_loadGraph_resume
    search_inv_handleSearchInput search_inv_stepSearch search_inv_resetView
    search_inv_reload_resume)

lemma search_inv_initial: "search_inv initial_state"
  by (simp add: search_inv_def initial_state_def)

lemma reachable_search_inv: "reachable s \<Longrightarrow> search_inv s"
  by (induction rule: reachable.induct) (simp_all add: search_inv_initial search_inv_fire)

lemma run_append: "run (es @ fs) s = run fs (run es s)"
  by (induction es arbitrary: s) simp_all

lemma reachable_run: "reachable s \<Longrightarrow> reachable (run es s)"
  by (induction es arbitrary: s) (simp_all add: reachable.step)

text \<open>A filter change that nothing interleaves with is a run of events.\<close>

lemma filterChange_run: "\<exists>es. filterChange m rresp gresp s = run es s"
proof (cases "reconciles m (mutate m s)")
  case False
  then have "filterChange m rresp gresp s = run [FilterChanged m] s"
    by (simp add: filterChange_def Let_def)
  then show ?thesis by blast
next
  case True
  let ?read = "fst (reload_begin (mutate m s))"
  let ?es = "[FilterChanged m, FilterRootsArrived ?read m rresp]"
  have two: "run ?es s =
      reload_resume ?read (Some (fst (cleared_notice m))) (snd (cleared_notice m)) rresp
        (snd (reload_begin (mutate m s)))"
    using True by (simp add: Let_def)
  have "filterChange m rresp gresp s = run ?es s \<or>
      filterChange m rresp gresp s = run (?es @ [GraphArrived (fst ?read) gresp]) s \<or>
      filterChange m rresp gresp s = run (?es @ [GraphArrived None gresp]) s"
    unfolding run_append two
    using True by (simp add: filterChange_def reload_parts Let_def del: mutate.simps)
  then show ?thesis by blast
qed

lemma reachable_filterChange:
  "reachable s \<Longrightarrow> reachable (filterChange m rresp gresp s)"
  using filterChange_run[of m rresp gresp s] by (auto simp add: reachable_run)

text \<open>
  C8. In every state that the events of the page lead to from the initial state, in any
  order, and after every further event (a term edit, a step forward or backward, the start
  or the arrival of a snapshot load, a filter change, the arrival of its root list with the
  view clear it may bring, a view reset, a click), \<open>searchIndex\<close> is \<open>- 1\<close> with no
  match, or an index into \<open>searchMatches\<close>.
\<close>

theorem search_index_valid:
  assumes "reachable s"
  shows "search_inv s \<and> search_inv (fire e s)"
  using assms by (simp add: reachable_search_inv search_inv_fire)

theorem search_index_valid_witness:
  "reachable page_search \<and> search_inv page_search \<and>
   search_inv (fire (SearchInput ''zz'') page_search) \<and>
   searchMatches (fire (SearchInput ''zz'') page_search) = [] \<and>
   searchIndex (fire (SearchInput ''zz'') page_search) = - 1"
proof -
  have r: "reachable page_search"
    unfolding page_search_def page_roots_def by (intro reachable_run reachable.start)
  have m: "searchMatches (fire (SearchInput ''zz'') page_search) = []"
    "searchIndex (fire (SearchInput ''zz'') page_search) = - 1"
    by code_simp+
  from search_index_valid[OF r, of "SearchInput ''zz''"] show ?thesis
    using r m by simp
qed

subsection \<open>The detail panel\<close>

lemma view_inv_same:
  "view_inv s \<Longrightarrow> nodeSelection t = nodeSelection s \<Longrightarrow> nodeById t = nodeById s \<Longrightarrow>
   zoom t = zoom s \<Longrightarrow> svg t = svg s \<Longrightarrow> view_inv t"
  by (simp add: view_inv_def split: option.splits)


lemma view_inv_buildGraph: "view_inv s \<Longrightarrow> view_inv (after (buildGraph d s))"
  by (auto simp add: view_inv_def buildGraph_def Let_def split: option.splits)

lemma view_inv_graph_loaded:
  "view_inv s \<Longrightarrow> view_inv (graph_loaded root d n s)"
  by (auto simp add: graph_loaded_def Let_def intro: view_inv_same[of s])

lemma view_inv_loadGraph_resume:
  assumes "view_inv s"
  shows "view_inv (loadGraph_resume root resp s)"
proof (cases resp)
  case (Payload d)
  define s2 where "s2 =
    (case gd_thirdPartyPackages d of
       None \<Rightarrow> s\<lparr>graphData := Some d, currentRoot := or_null root,
                   chainSummary := gd_chainSummary d\<rparr>
     | Some ps \<Rightarrow>
         renderThirdPartyPackageOptions
           (s\<lparr>graphData := Some d, currentRoot := or_null root,
              chainSummary := gd_chainSummary d, availableThirdPartyPackages := ps\<rparr>))"
  have "view_inv s2"
    using assms by (rule view_inv_same) (simp_all add: s2_def split: option.split)
  then have vb: "view_inv (after (buildGraph d s2))"
    by (rule view_inv_buildGraph)
  then have vu: "view_inv (after (updateStats d (after (buildGraph d s2))))"
    by (rule view_inv_same) simp_all
  have st: "view_inv (setStatus m l x)" if "view_inv x" for m l x
    using that by (rule view_inv_same) simp_all
  have eq: "loadGraph_resume root resp s =
      (case buildGraph d s2 of
         Throws s3 \<Rightarrow> setStatus MsgGraphFailed Err s3
       | Returns s3 \<Rightarrow>
           (case updateStats d s3 of
              Throws s4 \<Rightarrow> setStatus MsgGraphFailed Err s4
            | Returns s4 \<Rightarrow>
                (case gd_nodes d of
                   None \<Rightarrow> setStatus MsgGraphFailed Err s4
                 | Some ns \<Rightarrow> graph_loaded root d (length ns) s4)))"
    by (simp add: Payload loadGraph_resume_def s2_def Let_def)
  show ?thesis
    unfolding eq
    by (simp add: outcome.case_eq_if vb vu st view_inv_graph_loaded split: option.split)
next
  case FetchRejected
  from assms show ?thesis unfolding FetchRejected
    by (rule view_inv_same) (simp_all add: loadGraph_resume_def)
next
  case (BadStatus n)
  from assms show ?thesis unfolding BadStatus
    by (rule view_inv_same) (simp_all add: loadGraph_resume_def)
next
  case BadJson
  from assms show ?thesis unfolding BadJson
    by (rule view_inv_same) (simp_all add: loadGraph_resume_def)
qed

lemma view_inv_loadGraph:
  assumes "view_inv s"
  shows "view_inv (loadGraph root resp s)"
proof -
  have "view_inv (loadGraph_begin root s)"
    using assms by (rule view_inv_same) simp_all
  then show ?thesis
    by (simp add: loadGraph_def view_inv_loadGraph_resume)
qed









subsection \<open>Requests and what the loads write\<close>

lemma map_of_drop_key:
  "map_of (filter (\<lambda>p. fst p \<noteq> k) ps) x = (if x = k then None else map_of ps x)"
  by (induction ps) auto

lemma params_get_set:
  "params_get (params_set k v ps) x = (if x = k then Some v else params_get ps x)"
  by (induction ps) (auto simp add: params_get_def map_of_drop_key)

lemma filter_params_root:
  "params_get (filter_params s ps) ''root'' = params_get ps ''root''"
  by (simp add: filter_params_def Let_def params_get_set)

lemma filter_params_packages:
  "excludeThirdParty s \<Longrightarrow> selectedThirdPartyPackages s \<noteq> [] \<Longrightarrow>
   params_get (filter_params s ps) ''thirdPartyPackages'' =
     Some (join_comma (selectedThirdPartyPackages s))"
  by (simp add: filter_params_def Let_def params_get_set)

lemma filter_params_cong:
  "excludeSpring t = excludeSpring s \<Longrightarrow> excludeThirdParty t = excludeThirdParty s \<Longrightarrow>
   selectedThirdPartyPackages t = selectedThirdPartyPackages s \<Longrightarrow>
   filter_params t = filter_params s"
  by (rule ext) (simp add: filter_params_def Let_def)

lemma loadRoots_fetched:
  "fetched (snd (loadRoots resp s)) = fetched s @ [rootsUrl s]"
  by (cases resp)
    (simp_all add: loadRoots_def loadRoots_begin_def loadRoots_resume_def Let_def rootsUrl_def
      filter_params_cong[of "setStatus m l s" s for m l])

lemma loadRoots_payload:
  "roots (snd (loadRoots (Payload d) s)) = or_empty (rd_roots d)"
  "unusedChains (snd (loadRoots (Payload d) s)) = or_empty (rd_unusedChains d)"
  "availableThirdPartyPackages (snd (loadRoots (Payload d) s)) =
     or_empty (rd_thirdPartyPackages d)"
  "statRoots (snd (loadRoots (Payload d) s)) = length (or_empty (rd_roots d))"
  "statUnused (snd (loadRoots (Payload d) s)) = length (or_empty (rd_unusedChains d))"
  "statNodes (snd (loadRoots (Payload d) s)) = statNodes s"
  "statEdges (snd (loadRoots (Payload d) s)) = statEdges s"
  by (simp_all add: loadRoots_def loadRoots_begin_def loadRoots_resume_def Let_def)

lemma loadRoots_failed:
  assumes "\<not> is_payload resp"
  shows "roots (snd (loadRoots resp s)) = []"
    "unusedChains (snd (loadRoots resp s)) = []"
    "availableThirdPartyPackages (snd (loadRoots resp s)) = []"
    "statNodes (snd (loadRoots resp s)) = 0"
    "statEdges (snd (loadRoots resp s)) = 0"
    "statRoots (snd (loadRoots resp s)) = 0"
    "statUnused (snd (loadRoots resp s)) = 0"
    "status (snd (loadRoots resp s)) = (MsgRootsFailed, Err)"
    "pkgWidgets s \<Longrightarrow> selectedThirdPartyPackages (snd (loadRoots resp s)) = []"
  using assms
  by (cases resp;
      simp add: loadRoots_def loadRoots_begin_def loadRoots_resume_def Let_def
        resetStatsDisplay_def setStatus_def renderThirdPartyPackageOptions_def
        package_values_def)+

lemma loadGraph_resume_payload:
  "graphData (loadGraph_resume root (Payload d) s) = Some d"
  "currentRoot (loadGraph_resume root (Payload d) s) = or_null root"
  "chainSummary (loadGraph_resume root (Payload d) s) = gd_chainSummary d"
  by (simp_all add: loadGraph_resume_def Let_def outcome.case_eq_if split: option.split)

lemma loadGraph_resume_frame [simp]:
  "roots (loadGraph_resume root resp s) = roots s"
  "unusedChains (loadGraph_resume root resp s) = unusedChains s"
  "excludeSpring (loadGraph_resume root resp s) = excludeSpring s"
  "excludeThirdParty (loadGraph_resume root resp s) = excludeThirdParty s"
  "searchTerm (loadGraph_resume root resp s) = searchTerm s"
  "pkgWidgets (loadGraph_resume root resp s) = pkgWidgets s"
  "fetched (loadGraph_resume root resp s) = fetched s"
  by (cases resp;
      simp add: loadGraph_resume_def Let_def outcome.case_eq_if split: option.split)+

text \<open>A payload that renders is drawn and counted.\<close>

lemma buildGraph_renders:
  assumes "renders d" and "gd_nodes d = Some ns"
  shows "nodeSelection (after (buildGraph d s)) = (if ns = [] then None else Some ns)"
    "nodeById (after (buildGraph d s)) = (if ns = [] then Map.empty else node_map ns)"
    "svgNodes (after (buildGraph d s)) = ns"
  using assms
  by (auto simp add: buildGraph_def Let_def renders_def split: option.splits)

lemma updateStats_nodes:
  "gd_nodes d = Some ns \<Longrightarrow> statNodes (after (updateStats d s)) = length ns"
  by (simp add: updateStats_def Let_def split: option.split)

lemma loadGraph_resume_renders:
  assumes "renders d" and "gd_nodes d = Some ns"
  shows "nodeSelection (loadGraph_resume root (Payload d) s) = (if ns = [] then None else Some ns)"
    "nodeById (loadGraph_resume root (Payload d) s) = (if ns = [] then Map.empty else node_map ns)"
    "svgNodes (loadGraph_resume root (Payload d) s) = ns"
    "statNodes (loadGraph_resume root (Payload d) s) = length ns"
proof -
  have r: "returned (buildGraph d u)" "returned (updateStats d v)" for u v
    using assms(1) renders_returned[of d u v] by simp_all
  note f = buildGraph_renders[OF assms] updateStats_nodes[OF assms(2)]
  show "nodeSelection (loadGraph_resume root (Payload d) s) = (if ns = [] then None else Some ns)"
    "nodeById (loadGraph_resume root (Payload d) s) = (if ns = [] then Map.empty else node_map ns)"
    "svgNodes (loadGraph_resume root (Payload d) s) = ns"
    "statNodes (loadGraph_resume root (Payload d) s) = length ns"
    by (simp_all add: loadGraph_resume_def Let_def outcome.case_eq_if r assms(2) f)
qed

text \<open>
  A payload that does not render ends in the \<open>catch\<close> block, with the search state as it
  was.
\<close>

lemma loadGraph_resume_throws:
  assumes "\<not> renders d"
  shows "status (loadGraph_resume root (Payload d) s) = (MsgGraphFailed, Err)"
    "searchMatches (loadGraph_resume root (Payload d) s) = searchMatches s"
    "searchIndex (loadGraph_resume root (Payload d) s) = searchIndex s"
proof -
  have r: "\<not> (returned (buildGraph d u) \<and> returned (updateStats d v))" for u v
    using assms renders_returned[of d u v] by simp
  have n: "returned (updateStats d v) \<Longrightarrow> gd_nodes d \<noteq> None" for v
    by (simp add: returned_updateStats)
  show "status (loadGraph_resume root (Payload d) s) = (MsgGraphFailed, Err)"
    "searchMatches (loadGraph_resume root (Payload d) s) = searchMatches s"
    "searchIndex (loadGraph_resume root (Payload d) s) = searchIndex s"
    using r n
    by (auto simp add: loadGraph_resume_def Let_def outcome.case_eq_if setStatus_def
        split: option.split)
qed

lemma loadGraph_frame [simp]:
  "roots (loadGraph root resp s) = roots s"
  "unusedChains (loadGraph root resp s) = unusedChains s"
  "excludeSpring (loadGraph root resp s) = excludeSpring s"
  "excludeThirdParty (loadGraph root resp s) = excludeThirdParty s"
  "searchTerm (loadGraph root resp s) = searchTerm s"
  "pkgWidgets (loadGraph root resp s) = pkgWidgets s"
  "fetched (loadGraph root resp s) = fetched s @ [buildGraphDataUrl s root]"
  by (simp_all add: loadGraph_def)
    (simp add: loadGraph_begin_def Let_def buildGraphDataUrl_def
      filter_params_cong[of "t\<lparr>searchMatches := a, searchIndex := b\<rparr>" s for t a b])

lemma loadGraph_currentRoot:
  "currentRoot (loadGraph root resp s) = (if is_payload resp then or_null root else currentRoot s)"
  by (cases resp) (simp_all add: loadGraph_def loadGraph_resume_payload loadGraph_resume_failed)

lemma load_fails_cases:
  "load_fails resp = (\<not> is_payload resp \<or> (\<exists>d. resp = Payload d \<and> \<not> renders d))"
  by (cases resp) (simp_all add: load_fails_def)

lemma filterChange_reconciles:
  "reconciles m (mutate m s) \<Longrightarrow>
   filterChange m rresp gresp s =
     reloadDataAfterFilterChange (Some (fst (cleared_notice m))) (snd (cleared_notice m))
       rresp gresp (mutate m s)"
  by (simp add: filterChange_def Let_def)

lemma filterChange_stops:
  "\<not> reconciles m (mutate m s) \<Longrightarrow> filterChange m rresp gresp s = mutate m s"
  by (simp add: filterChange_def Let_def)

subsection \<open>Reconciling a filter change\<close>

text \<open>
  The three theorems of this subsection are about \<open>filterChange\<close>: a listener of a filter
  control from the write of the new filter to the end of \<open>reloadDataAfterFilterChange\<close>,
  with the responses it is given and no other event in between (a run of events, by
  \<open>filterChange_run\<close>).
\<close>

text \<open>
  C1. The root \<open>r\<close> selected before a filter mutation is not empty and is in the root list
  that arrives under the new filter. When the mutation starts the reconciliation, the page
  ends as \<open>loadGraph\<close> of \<open>r\<close> leaves it after the new root list: the roots are the new
  list, \<open>currentRoot\<close> is still \<open>r\<close>, the request for the root list is followed by the
  request for the snapshot of \<open>r\<close> under the new filter, and a payload that arrives is the
  snapshot. When it does not (a package selection while \<open>excludeThirdParty\<close> is off),
  nothing is fetched and the root and the snapshot stay.
\<close>

theorem surviving_root_kept:
  assumes "currentRoot s = Some r" and "r \<noteq> []"
    and "r \<in> set (or_empty (rd_roots d))"
  shows "(reconciles m (mutate m s) \<longrightarrow>
            filterChange m (Payload d) gresp s =
              loadGraph (Some r) gresp (snd (loadRoots (Payload d) (mutate m s))) \<and>
            roots (filterChange m (Payload d) gresp s) = or_empty (rd_roots d) \<and>
            currentRoot (filterChange m (Payload d) gresp s) = Some r \<and>
            fetched (filterChange m (Payload d) gresp s) =
              fetched s @ [rootsUrl (mutate m s),
                buildGraphDataUrl (snd (loadRoots (Payload d) (mutate m s))) (Some r)] \<and>
            params_get
              (req_params (buildGraphDataUrl (snd (loadRoots (Payload d) (mutate m s))) (Some r)))
              ''root'' = Some r \<and>
            (gresp = Payload g \<longrightarrow> graphData (filterChange m (Payload d) gresp s) = Some g)) \<and>
         (\<not> reconciles m (mutate m s) \<longrightarrow>
            currentRoot (filterChange m (Payload d) gresp s) = Some r \<and>
            graphData (filterChange m (Payload d) gresp s) = graphData s \<and>
            fetched (filterChange m (Payload d) gresp s) = fetched s)"
proof -
  let ?s1 = "snd (loadRoots (Payload d) (mutate m s))"
  let ?s' = "filterChange m (Payload d) gresp s"
  have tr: "truthy (currentRoot s)"
    using assms(1,2) by (simp add: truthy_def)
  have rec: "?s' = loadGraph (Some r) gresp ?s1" if "reconciles m (mutate m s)"
    using that assms tr
    by (simp add: filterChange_reconciles reload_unfold Let_def loadRoots_payload)
  have cur: "currentRoot (loadGraph (Some r) gresp ?s1) = Some r"
    using assms(1,2) by (simp add: loadGraph_currentRoot or_null_def truthy_def)
  have rts: "roots (loadGraph (Some r) gresp ?s1) = or_empty (rd_roots d)"
    by (simp add: loadRoots_payload)
  have fet: "fetched (loadGraph (Some r) gresp ?s1) =
      fetched s @ [rootsUrl (mutate m s), buildGraphDataUrl ?s1 (Some r)]"
    by (simp add: loadRoots_fetched)
  have par: "params_get (req_params (buildGraphDataUrl ?s1 (Some r))) ''root'' = Some r"
    using assms(2)
    by (simp add: buildGraphDataUrl_def filter_params_root truthy_def)
      (simp add: params_get_def)
  have gd: "gresp = Payload g \<longrightarrow> graphData (loadGraph (Some r) gresp ?s1) = Some g"
    by (simp add: loadGraph_def loadGraph_resume_payload)
  have stop: "currentRoot ?s' = Some r \<and> graphData ?s' = graphData s \<and> fetched ?s' = fetched s"
    if "\<not> reconciles m (mutate m s)"
    using that assms(1) by (simp add: filterChange_stops)
  show ?thesis
  proof (cases "reconciles m (mutate m s)")
    case True
    show ?thesis
      unfolding rec[OF True] using True cur rts fet par gd by blast
  next
    case False
    with stop show ?thesis by blast
  qed
qed

theorem surviving_root_kept_witness:
  "currentRoot page_A = Some ''A'' \<and> ''A'' \<in> set (or_empty (rd_roots roots_AB)) \<and>
   reconciles (ExcludeThirdParty True) (mutate (ExcludeThirdParty True) page_A) \<and>
   roots (filterChange (ExcludeThirdParty True) (Payload roots_AB) (Payload snapshot_A) page_A) =
     [''A'', ''B''] \<and>
   currentRoot (filterChange (ExcludeThirdParty True) (Payload roots_AB) (Payload snapshot_A) page_A) =
     Some ''A'' \<and>
   graphData (filterChange (ExcludeThirdParty True) (Payload roots_AB) (Payload snapshot_A) page_A) =
     Some snapshot_A \<and>
   fetched (filterChange (ExcludeThirdParty True) (Payload roots_AB) (Payload snapshot_A) page_A) =
     fetched page_A @
       [\<lparr>req_path = ''/roots'',
          req_params = [(''excludeThirdParty'', ''true''), (''thirdPartyPackages'', ''pkg1,pkg2'')]\<rparr>,
        \<lparr>req_path = ''/graph-data'',
          req_params = [(''root'', ''A''), (''excludeThirdParty'', ''true''),
                        (''thirdPartyPackages'', ''pkg1,pkg2'')]\<rparr>]"
proof -
  have c: "currentRoot page_A = Some ''A''"
    by code_simp
  have n: "''A'' \<noteq> []"
    by simp
  have i: "''A'' \<in> set (or_empty (rd_roots roots_AB))"
    by code_simp
  have e: "or_empty (rd_roots roots_AB) = [''A'', ''B'']"
    "rootsUrl (mutate (ExcludeThirdParty True) page_A) =
       \<lparr>req_path = ''/roots'',
         req_params = [(''excludeThirdParty'', ''true''), (''thirdPartyPackages'', ''pkg1,pkg2'')]\<rparr>"
    "buildGraphDataUrl (snd (loadRoots (Payload roots_AB) (mutate (ExcludeThirdParty True) page_A)))
         (Some ''A'') =
       \<lparr>req_path = ''/graph-data'',
         req_params = [(''root'', ''A''), (''excludeThirdParty'', ''true''),
                       (''thirdPartyPackages'', ''pkg1,pkg2'')]\<rparr>"
    by code_simp+
  have r: "reconciles (ExcludeThirdParty True) (mutate (ExcludeThirdParty True) page_A)"
    by simp
  let ?s' = "filterChange (ExcludeThirdParty True) (Payload roots_AB) (Payload snapshot_A) page_A"
  from surviving_root_kept[OF c n i, of "ExcludeThirdParty True" "Payload snapshot_A" snapshot_A] r
  have "roots ?s' = or_empty (rd_roots roots_AB) \<and> currentRoot ?s' = Some ''A'' \<and>
      fetched ?s' = fetched page_A @ [rootsUrl (mutate (ExcludeThirdParty True) page_A),
        buildGraphDataUrl
          (snd (loadRoots (Payload roots_AB) (mutate (ExcludeThirdParty True) page_A)))
          (Some ''A'')] \<and>
      graphData ?s' = Some snapshot_A"
    by blast
  then show ?thesis
    using c i r by (simp add: e del: mutate.simps)
qed



text \<open>
  C3, as the script has it. A filter mutation starts the reconciliation and the request
  for the root list fails. Then nothing else is requested and the view is not cleared: the
  snapshot, the current root, the chain summary, the rendered nodes, the highlight, the
  panel, the placeholder and the search state are those of before. The root list, the
  unused-chain list and the available packages are emptied, the four counters are set to
  zero, and the status is the error of the root list.
\<close>

theorem roots_failure_aborts:
  assumes "reconciles m (mutate m s)" and "\<not> is_payload rresp"
  shows "graphData (filterChange m rresp gresp s) = graphData s \<and>
         currentRoot (filterChange m rresp gresp s) = currentRoot s \<and>
         chainSummary (filterChange m rresp gresp s) = chainSummary s \<and>
         nodeSelection (filterChange m rresp gresp s) = nodeSelection s \<and>
         nodeById (filterChange m rresp gresp s) = nodeById s \<and>
         highlightedNode (filterChange m rresp gresp s) = highlightedNode s \<and>
         details (filterChange m rresp gresp s) = details s \<and>
         placeholder (filterChange m rresp gresp s) = placeholder s \<and>
         searchTerm (filterChange m rresp gresp s) = searchTerm s \<and>
         searchMatches (filterChange m rresp gresp s) = searchMatches s \<and>
         searchIndex (filterChange m rresp gresp s) = searchIndex s \<and>
         fetched (filterChange m rresp gresp s) = fetched s @ [rootsUrl (mutate m s)] \<and>
         status (filterChange m rresp gresp s) = (MsgRootsFailed, Err) \<and>
         roots (filterChange m rresp gresp s) = [] \<and>
         unusedChains (filterChange m rresp gresp s) = [] \<and>
         availableThirdPartyPackages (filterChange m rresp gresp s) = [] \<and>
         statNodes (filterChange m rresp gresp s) = 0 \<and>
         statEdges (filterChange m rresp gresp s) = 0 \<and>
         statRoots (filterChange m rresp gresp s) = 0 \<and>
         statUnused (filterChange m rresp gresp s) = 0"
proof -
  have eq: "filterChange m rresp gresp s = snd (loadRoots rresp (mutate m s))"
    using assms by (simp add: filterChange_reconciles reload_unfold Let_def)
  show ?thesis
    unfolding eq using assms(2) by (simp add: loadRoots_failed loadRoots_fetched)
qed

theorem roots_failure_aborts_witness:
  "reconciles (ExcludeSpring True) (mutate (ExcludeSpring True) page_A) \<and>
   \<not> is_payload (FetchRejected :: roots_data response) \<and>
   graphData page_A = Some snapshot_A \<and> currentRoot page_A = Some ''A'' \<and>
   graphData (filterChange (ExcludeSpring True) FetchRejected (Payload snapshot_B) page_A) =
     Some snapshot_A \<and>
   currentRoot (filterChange (ExcludeSpring True) FetchRejected (Payload snapshot_B) page_A) =
     Some ''A'' \<and>
   roots (filterChange (ExcludeSpring True) FetchRejected (Payload snapshot_B) page_A) = [] \<and>
   statNodes (filterChange (ExcludeSpring True) FetchRejected (Payload snapshot_B) page_A) = 0"
proof -
  have r: "reconciles (ExcludeSpring True) (mutate (ExcludeSpring True) page_A)"
    by simp
  have f: "\<not> is_payload (FetchRejected :: roots_data response)"
    by simp
  have e: "graphData page_A = Some snapshot_A" "currentRoot page_A = Some ''A''"
    by code_simp+
  from roots_failure_aborts[OF r f, of "Payload snapshot_B"] show ?thesis
    using e by (simp del: mutate.simps)
qed

text \<open>
  The claim C3 as it is written, that the root list and the counters stay as they were,
  fails on the page that shows the snapshot of \<open>A\<close>: the roots \<open>A\<close> and \<open>B\<close> and the
  counters 2 and 1 are gone after a filter toggle whose root list request is rejected,
  while the snapshot stays.
\<close>

theorem roots_failure_resets_lists_counterexample:
  "roots page_A = [''A'', ''B''] \<and>
   roots (filterChange (ExcludeSpring True) FetchRejected FetchRejected page_A) = [] \<and>
   statNodes page_A = 2 \<and>
   statNodes (filterChange (ExcludeSpring True) FetchRejected FetchRejected page_A) = 0 \<and>
   statEdges page_A = 1 \<and>
   statEdges (filterChange (ExcludeSpring True) FetchRejected FetchRejected page_A) = 0 \<and>
   graphData (filterChange (ExcludeSpring True) FetchRejected FetchRejected page_A) =
     Some snapshot_A"
  by code_simp

subsection \<open>The selection of third-party packages\<close>

text \<open>
  C4. With no package selected, the listener of the \<open>excludeThirdParty\<close> checkbox, when
  the box is checked, sets the filter and selects all the package ids of
  \<open>availableThirdPartyPackages\<close>, in their order; when there is one, the request for the
  root list that follows carries them. In any state \<open>t\<close> with the filter set and a
  non-empty selection, the parameters of the snapshot query hold the selection, joined by
  commas, under \<open>thirdPartyPackages\<close>.
\<close>

theorem third_party_selection_populated:
  "(selectedThirdPartyPackages s = [] \<longrightarrow>
      excludeThirdParty (mutate (ExcludeThirdParty True) s) \<and>
      selectedThirdPartyPackages (mutate (ExcludeThirdParty True) s) =
        getAllThirdPartyPackageIds s \<and>
      (getAllThirdPartyPackageIds s \<noteq> [] \<longrightarrow>
         params_get (req_params (rootsUrl (mutate (ExcludeThirdParty True) s)))
           ''thirdPartyPackages'' = Some (join_comma (getAllThirdPartyPackageIds s)))) \<and>
   (excludeThirdParty t \<and> selectedThirdPartyPackages t \<noteq> [] \<longrightarrow>
      params_get (req_params (buildGraphDataUrl t root)) ''thirdPartyPackages'' =
        Some (join_comma (selectedThirdPartyPackages t)))"
proof -
  have sel: "selectedThirdPartyPackages (mutate (ExcludeThirdParty True) s) =
      getAllThirdPartyPackageIds s" if "selectedThirdPartyPackages s = []"
    using that
    by (simp add: Let_def renderThirdPartyPackageOptions_def getAllThirdPartyPackageIds_def)
  have ex: "excludeThirdParty (mutate (ExcludeThirdParty True) s)"
    by (simp add: Let_def)
  have q: "params_get (req_params (rootsUrl (mutate (ExcludeThirdParty True) s)))
      ''thirdPartyPackages'' = Some (join_comma (getAllThirdPartyPackageIds s))"
    if "selectedThirdPartyPackages s = []" "getAllThirdPartyPackageIds s \<noteq> []"
    using that ex sel by (simp add: rootsUrl_def filter_params_packages del: mutate.simps)
  have g: "params_get (req_params (buildGraphDataUrl t root)) ''thirdPartyPackages'' =
      Some (join_comma (selectedThirdPartyPackages t))"
    if "excludeThirdParty t" "selectedThirdPartyPackages t \<noteq> []"
    using that by (simp add: buildGraphDataUrl_def filter_params_packages)
  from sel ex q g show ?thesis by blast
qed

theorem third_party_selection_populated_witness:
  "selectedThirdPartyPackages page_roots = [] \<and>
   getAllThirdPartyPackageIds page_roots = [''pkg1'', ''pkg2''] \<and>
   selectedThirdPartyPackages (mutate (ExcludeThirdParty True) page_roots) = [''pkg1'', ''pkg2''] \<and>
   params_get
     (req_params (buildGraphDataUrl (mutate (ExcludeThirdParty True) page_roots) (Some ''A'')))
     ''thirdPartyPackages'' = Some ''pkg1,pkg2''"
proof -
  have e: "selectedThirdPartyPackages page_roots = []"
    "getAllThirdPartyPackageIds page_roots = [''pkg1'', ''pkg2'']"
    "join_comma [''pkg1'', ''pkg2''] = ''pkg1,pkg2''"
    by code_simp+
  from third_party_selection_populated[of page_roots
      "mutate (ExcludeThirdParty True) page_roots" "Some ''A''"]
  show ?thesis
    using e by (simp del: mutate.simps)
qed

subsection \<open>Responses that arrive out of order\<close>

text \<open>
  C5, as the script has it. The script keeps no sequence number: the snapshot and the
  root in the state are those of the payload that arrived last, whatever arrived before,
  and when that payload renders, its nodes are the ones drawn and selected. When the load
  of \<open>ra\<close> is started before the load of \<open>rb\<close> and the payload of \<open>rb\<close> arrives first,
  the page ends on the snapshot of \<open>ra\<close>, the load started first.
\<close>

theorem last_arrival_wins:
  "graphData (loadGraph_resume r2 (Payload d2) (loadGraph_resume r1 resp1 s)) = Some d2 \<and>
   currentRoot (loadGraph_resume r2 (Payload d2) (loadGraph_resume r1 resp1 s)) = or_null r2 \<and>
   (renders d2 \<and> gd_nodes d2 = Some n2 \<longrightarrow>
      nodeSelection (loadGraph_resume r2 (Payload d2) (loadGraph_resume r1 resp1 s)) =
        (if n2 = [] then None else Some n2) \<and>
      svgNodes (loadGraph_resume r2 (Payload d2) (loadGraph_resume r1 resp1 s)) = n2) \<and>
   graphData
     (loadGraph_resume ra (Payload da)
        (loadGraph_resume rb (Payload db) (loadGraph_begin rb (loadGraph_begin ra s)))) =
     Some da \<and>
   currentRoot
     (loadGraph_resume ra (Payload da)
        (loadGraph_resume rb (Payload db) (loadGraph_begin rb (loadGraph_begin ra s)))) =
     or_null ra \<and>
   (renders da \<and> gd_nodes da = Some na \<longrightarrow>
      nodeSelection
        (loadGraph_resume ra (Payload da)
           (loadGraph_resume rb (Payload db) (loadGraph_begin rb (loadGraph_begin ra s)))) =
        (if na = [] then None else Some na) \<and>
      svgNodes
        (loadGraph_resume ra (Payload da)
           (loadGraph_resume rb (Payload db) (loadGraph_begin rb (loadGraph_begin ra s)))) =
        na)"
  by (simp add: loadGraph_resume_payload loadGraph_resume_renders)

theorem last_arrival_wins_witness:
  "renders snapshot_all \<and>
   gd_nodes snapshot_all = Some [node_A, node_B, node_alpha, node_beta] \<and>
   graphData
     (loadGraph_resume None (Payload snapshot_all)
        (loadGraph_resume (Some ''B'') (Payload snapshot_B)
           (loadGraph_begin (Some ''B'') (loadGraph_begin None page_roots)))) =
     Some snapshot_all \<and>
   currentRoot
     (loadGraph_resume None (Payload snapshot_all)
        (loadGraph_resume (Some ''B'') (Payload snapshot_B)
           (loadGraph_begin (Some ''B'') (loadGraph_begin None page_roots)))) = None \<and>
   nodeSelection
     (loadGraph_resume None (Payload snapshot_all)
        (loadGraph_resume (Some ''B'') (Payload snapshot_B)
           (loadGraph_begin (Some ''B'') (loadGraph_begin None page_roots)))) =
     Some [node_A, node_B, node_alpha, node_beta] \<and>
   svgNodes
     (loadGraph_resume None (Payload snapshot_all)
        (loadGraph_resume (Some ''B'') (Payload snapshot_B)
           (loadGraph_begin (Some ''B'') (loadGraph_begin None page_roots)))) =
     [node_A, node_B, node_alpha, node_beta]"
proof -
  have r: "renders snapshot_all"
    by code_simp
  have n: "gd_nodes snapshot_all = Some [node_A, node_B, node_alpha, node_beta]"
    by (simp add: snapshot_all_def)
  from last_arrival_wins[of None snapshot_all None FetchRejected page_roots
      "[node_A, node_B, node_alpha, node_beta]" None snapshot_all
      "Some ''B''" snapshot_B "[node_A, node_B, node_alpha, node_beta]"]
  show ?thesis
    using r n by (simp add: or_null_def truthy_def)
qed

text \<open>
  The claim C5 as it is written, that the later-initiated load is the one on display, fails
  on the page with the roots \<open>A\<close> and \<open>B\<close>: \<open>A\<close> is requested, then \<open>B\<close>; the snapshot of
  \<open>B\<close> arrives, then the snapshot of \<open>A\<close>; the page shows \<open>A\<close>.
\<close>

theorem stale_response_overwrites_counterexample:
  "fetched (run [LoadRootClick ''A'', LoadRootClick ''B''] page_roots) =
     [\<lparr>req_path = ''/roots'', req_params = []\<rparr>,
      \<lparr>req_path = ''/graph-data'', req_params = [(''root'', ''A'')]\<rparr>,
      \<lparr>req_path = ''/graph-data'', req_params = [(''root'', ''B'')]\<rparr>] \<and>
   graphData
     (run [LoadRootClick ''A'', LoadRootClick ''B'',
           GraphArrived (Some ''B'') (Payload snapshot_B),
           GraphArrived (Some ''A'') (Payload snapshot_A)] page_roots) = Some snapshot_A \<and>
   currentRoot
     (run [LoadRootClick ''A'', LoadRootClick ''B'',
           GraphArrived (Some ''B'') (Payload snapshot_B),
           GraphArrived (Some ''A'') (Payload snapshot_A)] page_roots) = Some ''A'' \<and>
   nodeSelection
     (run [LoadRootClick ''A'', LoadRootClick ''B'',
           GraphArrived (Some ''B'') (Payload snapshot_B),
           GraphArrived (Some ''A'') (Payload snapshot_A)] page_roots) = Some [node_A, node_B] \<and>
   svgNodes
     (run [LoadRootClick ''A'', LoadRootClick ''B'',
           GraphArrived (Some ''B'') (Payload snapshot_B),
           GraphArrived (Some ''A'') (Payload snapshot_A)] page_roots) = [node_A, node_B] \<and>
   snapshot_A \<noteq> snapshot_B"
  by code_simp

subsection \<open>A snapshot load that fails\<close>

text \<open>
  C10, as the script has it. \<open>loadGraph\<close> empties \<open>searchMatches\<close> and sets
  \<open>searchIndex\<close> to \<open>- 1\<close> before it awaits the response. A load that fails, by its
  response or by a payload that does not render, ends with the failure status and does not
  write the matches or the index, in whatever state \<open>t\<close> it resumes: after the whole call
  they are gone. When the fetch rejects, the status is not ok or the body is not JSON, the
  rest of \<open>loadGraph\<close> only sets the status: the snapshot, the root, the chain summary, the
  nodes drawn and selected, the highlight, the panel and the placeholder are those of
  before.
\<close>

theorem failed_load_clears_search:
  "searchMatches (loadGraph_begin root s) = [] \<and>
   searchIndex (loadGraph_begin root s) = - 1 \<and>
   (load_fails resp \<longrightarrow>
      status (loadGraph_resume root resp t) = (MsgGraphFailed, Err) \<and>
      searchMatches (loadGraph_resume root resp t) = searchMatches t \<and>
      searchIndex (loadGraph_resume root resp t) = searchIndex t \<and>
      searchMatches (loadGraph root resp s) = [] \<and>
      searchIndex (loadGraph root resp s) = - 1 \<and>
      status (loadGraph root resp s) = (MsgGraphFailed, Err)) \<and>
   (\<not> is_payload resp \<longrightarrow>
      loadGraph_resume root resp t = t\<lparr>status := (MsgGraphFailed, Err)\<rparr> \<and>
      graphData (loadGraph root resp s) = graphData s \<and>
      currentRoot (loadGraph root resp s) = currentRoot s \<and>
      chainSummary (loadGraph root resp s) = chainSummary s \<and>
      svgNodes (loadGraph root resp s) = svgNodes s \<and>
      nodeSelection (loadGraph root resp s) = nodeSelection s \<and>
      nodeById (loadGraph root resp s) = nodeById s \<and>
      highlightedNode (loadGraph root resp s) = highlightedNode s \<and>
      details (loadGraph root resp s) = details s \<and>
      placeholder (loadGraph root resp s) = placeholder s)"
proof -
  have b: "searchMatches (loadGraph_begin root s) = [] \<and> searchIndex (loadGraph_begin root s) = - 1"
    by (simp add: loadGraph_begin_def Let_def)
  have f: "status (loadGraph_resume root resp u) = (MsgGraphFailed, Err) \<and>
      searchMatches (loadGraph_resume root resp u) = searchMatches u \<and>
      searchIndex (loadGraph_resume root resp u) = searchIndex u"
    if "load_fails resp" for u
  proof (cases "is_payload resp")
    case False
    then show ?thesis
      by (simp add: loadGraph_resume_failed) (simp add: setStatus_def)
  next
    case True
    with that obtain d where "resp = Payload d" "\<not> renders d"
      by (auto simp add: load_fails_cases)
    then show ?thesis
      by (simp add: loadGraph_resume_throws)
  qed
  have p: "loadGraph_resume root resp t = t\<lparr>status := (MsgGraphFailed, Err)\<rparr> \<and>
      graphData (loadGraph root resp s) = graphData s \<and>
      currentRoot (loadGraph root resp s) = currentRoot s \<and>
      chainSummary (loadGraph root resp s) = chainSummary s \<and>
      svgNodes (loadGraph root resp s) = svgNodes s \<and>
      nodeSelection (loadGraph root resp s) = nodeSelection s \<and>
      nodeById (loadGraph root resp s) = nodeById s \<and>
      highlightedNode (loadGraph root resp s) = highlightedNode s \<and>
      details (loadGraph root resp s) = details s \<and>
      placeholder (loadGraph root resp s) = placeholder s"
    if "\<not> is_payload resp"
    using that
    by (simp add: loadGraph_def loadGraph_resume_failed) (simp add: setStatus_def)
  from b f[of t] f[of "loadGraph_begin root s"] p show ?thesis
    by (simp add: loadGraph_def)
qed

theorem failed_load_clears_search_witness:
  "\<not> is_payload (BadStatus 500 :: graph_data response) \<and>
   load_fails (BadStatus 500) \<and>
   load_fails (Payload payload_dangling) \<and>
   searchMatches page_search = [''A'', ''alpha'', ''beta''] \<and>
   searchIndex page_search = 1 \<and>
   graphData page_search = Some snapshot_all \<and>
   searchMatches (loadGraph (Some ''B'') (BadStatus 500) page_search) = [] \<and>
   searchIndex (loadGraph (Some ''B'') (BadStatus 500) page_search) = - 1 \<and>
   graphData (loadGraph (Some ''B'') (BadStatus 500) page_search) = Some snapshot_all \<and>
   currentRoot (loadGraph (Some ''B'') (BadStatus 500) page_search) = None \<and>
   searchMatches (loadGraph (Some ''B'') (Payload payload_dangling) page_search) = [] \<and>
   searchIndex (loadGraph (Some ''B'') (Payload payload_dangling) page_search) = - 1 \<and>
   status (loadGraph (Some ''B'') (Payload payload_dangling) page_search) =
     (MsgGraphFailed, Err)"
proof -
  have f: "\<not> is_payload (BadStatus 500 :: graph_data response)"
    "load_fails (BadStatus 500)" "load_fails (Payload payload_dangling)"
    by code_simp+
  have e: "searchMatches page_search = [''A'', ''alpha'', ''beta'']"
    "searchIndex page_search = 1" "graphData page_search = Some snapshot_all"
    "currentRoot page_search = None"
    by code_simp+
  from failed_load_clears_search[of "Some ''B''" page_search "BadStatus 500" page_search]
    failed_load_clears_search[of "Some ''B''" page_search "Payload payload_dangling" page_search]
  show ?thesis
    using f e by simp
qed

text \<open>
  The claim C10 as it is written, that the previous snapshot stays on display whenever the
  load fails, fails on the page that shows the snapshot of \<open>A\<close>: the response to the load
  of \<open>B\<close> has the body \<open>{}\<close>. The load ends with the failure status, the state holds the
  new payload and the root \<open>B\<close>, and the SVG element is empty. With the node \<open>B\<close> and an
  edge to \<open>Z\<close> the load fails as well, and \<open>B\<close> is drawn while \<open>A\<close> and \<open>B\<close> stay
  selected.
\<close>

theorem failed_payload_replaces_snapshot_counterexample:
  "graphData page_A = Some snapshot_A \<and>
   currentRoot page_A = Some ''A'' \<and>
   svgNodes page_A = [node_A, node_B] \<and>
   status (loadGraph (Some ''B'') (Payload payload_empty) page_A) = (MsgGraphFailed, Err) \<and>
   graphData (loadGraph (Some ''B'') (Payload payload_empty) page_A) = Some payload_empty \<and>
   currentRoot (loadGraph (Some ''B'') (Payload payload_empty) page_A) = Some ''B'' \<and>
   svgNodes (loadGraph (Some ''B'') (Payload payload_empty) page_A) = [] \<and>
   payload_empty \<noteq> snapshot_A \<and>
   status (loadGraph (Some ''B'') (Payload payload_dangling) page_A) = (MsgGraphFailed, Err) \<and>
   graphData (loadGraph (Some ''B'') (Payload payload_dangling) page_A) =
     Some payload_dangling \<and>
   svgNodes (loadGraph (Some ''B'') (Payload payload_dangling) page_A) = [node_B] \<and>
   nodeSelection (loadGraph (Some ''B'') (Payload payload_dangling) page_A) =
     Some [node_A, node_B] \<and>
   payload_dangling \<noteq> snapshot_A"
  by code_simp

end
